theory Spec2Isabelle
  imports Complex_Main "HOL-Library.Sublist"
begin

section \<open>Errors of the run\<close>

text \<open>
  The program reports a failed check by printing a message and calling \<^verbatim>\<open>sys.exit()\<close>;
  everything else that stops it is an uncaught Python exception. Both are values here:
  \<open>Exit msg\<close> is a guarded exit with the printed message, the other constructors are the
  exceptions the modelled code can raise.
\<close>

datatype error =
  Exit string | ZeroDivisionError | IndexError | ValueError | TypeError | OverflowError

text \<open>Sequencing of computations that can fail: the first error stops the evaluation.\<close>

definition bind_err :: "error + 'a \<Rightarrow> ('a \<Rightarrow> error + 'b) \<Rightarrow> error + 'b" where
  "bind_err m f = (case m of Inl e \<Rightarrow> Inl e | Inr a \<Rightarrow> f a)"

text \<open>A list comprehension, or \<^verbatim>\<open>list(map(f, xs))\<close>, over a function that can fail: the
  elements are visited in order and the first failure ends it.\<close>

fun map_err :: "('a \<Rightarrow> error + 'b) \<Rightarrow> 'a list \<Rightarrow> error + 'b list" where
  "map_err f [] = Inr []"
| "map_err f (x # xs) =
     (case f x of
        Inl e \<Rightarrow> Inl e
      | Inr y \<Rightarrow> (case map_err f xs of Inl e \<Rightarrow> Inl e | Inr ys \<Rightarrow> Inr (y # ys)))"

section \<open>Lists\<close>

text \<open>\<^verbatim>\<open>xs[i]\<close> for an index \<open>i \<ge> 0\<close>: \<^verbatim>\<open>IndexError\<close> past the end.\<close>

definition getitem :: "'a list \<Rightarrow> nat \<Rightarrow> error + 'a" where
  "getitem xs i = (if i < length xs then Inr (xs ! i) else Inl IndexError)"

text \<open>
  \<^verbatim>\<open>def rotate(list_in, x): return list_in[-x:] + list_in[:-x]\<close>

  A Python slice bound \<open>k\<close> on a list of length \<open>n\<close> is clamped: a negative bound counts
  from the end and stops at 0, a positive one stops at \<open>n\<close>.
\<close>

definition slice_index :: "nat \<Rightarrow> int \<Rightarrow> nat" where
  "slice_index n k = (if k < 0 then nat (max 0 (int n + k)) else min (nat k) n)"

definition rotate_py :: "'a list \<Rightarrow> int \<Rightarrow> 'a list" where
  "rotate_py list_in x =
     drop (slice_index (length list_in) (- x)) list_in @
     take (slice_index (length list_in) (- x)) list_in"

text \<open>
  A sequence object handed around by the program is a list or the iterator that
  \<^verbatim>\<open>reversed(l)\<close> returns for a list \<open>l\<close>. A \<^verbatim>\<open>for\<close> loop or a comprehension visits
  \<open>elements\<close>; the iterator cannot be indexed or sliced.
\<close>

datatype 'a pyseq = PyList "'a list" | PyReversed "'a list"

fun elements :: "'a pyseq \<Rightarrow> 'a list" where
  "elements (PyList l) = l"
| "elements (PyReversed l) = rev l"

section \<open>Python numbers\<close>

text \<open>
  The numbers of a run are Python objects: integers of any size, floats (IEEE doubles with
  their rounding, signed zeros, infinities and NaN), booleans, complex numbers. The model
  does not fix them. The type \<open>'n\<close> stands for the number objects and a record \<open>A\<close> of
  type \<open>'n arith\<close> gives the operations the program applies to them; every function of the
  program that computes with numbers or prints them takes \<open>A\<close> as its first argument. What
  is proved for every \<open>A\<close> holds whatever the rounding is.

  \<^item> \<open>lit k\<close> is the integer literal \<open>k\<close>, \<open>one_float\<close> the float literal \<^verbatim>\<open>1.0\<close>;
  \<^item> \<open>add_py\<close>, \<open>sub_py\<close>, \<open>mul_py\<close> are \<^verbatim>\<open>+\<close>, \<^verbatim>\<open>-\<close>, \<^verbatim>\<open>*\<close>, which can raise
    (\<^verbatim>\<open>OverflowError\<close> when an integer is too large to be converted to a float);
  \<^item> \<open>quot_py x y\<close> is \<^verbatim>\<open>x / y\<close> for a divisor that is not zero;
  \<^item> \<open>neg_py\<close> is the unary minus;
  \<^item> \<open>pow2_py x\<close> is \<^verbatim>\<open>x ** 2\<close> (\<^verbatim>\<open>OverflowError\<close> when the square of a float is out of
    range) and \<open>sqrt_py\<close> is \<^verbatim>\<open>math.sqrt\<close>;
  \<^item> \<open>eq_py\<close> is \<^verbatim>\<open>==\<close>, under which \<^verbatim>\<open>0\<close>, \<^verbatim>\<open>0.0\<close> and \<^verbatim>\<open>-0.0\<close> are equal, and
    \<open>gt_py\<close> is \<^verbatim>\<open>>\<close> (\<^verbatim>\<open>TypeError\<close> on a complex number);
  \<^item> \<open>str_py\<close> is \<^verbatim>\<open>str\<close>, which prints equal numbers differently (\<^verbatim>\<open>0\<close>, \<^verbatim>\<open>0.0\<close>,
    \<^verbatim>\<open>-0.0\<close>).
\<close>

record 'n arith =
  lit :: "int \<Rightarrow> 'n"
  one_float :: "'n"
  add_py :: "'n \<Rightarrow> 'n \<Rightarrow> error + 'n"
  sub_py :: "'n \<Rightarrow> 'n \<Rightarrow> error + 'n"
  mul_py :: "'n \<Rightarrow> 'n \<Rightarrow> error + 'n"
  quot_py :: "'n \<Rightarrow> 'n \<Rightarrow> error + 'n"
  neg_py :: "'n \<Rightarrow> 'n"
  pow2_py :: "'n \<Rightarrow> error + 'n"
  sqrt_py :: "'n \<Rightarrow> error + 'n"
  eq_py :: "'n \<Rightarrow> 'n \<Rightarrow> bool"
  gt_py :: "'n \<Rightarrow> 'n \<Rightarrow> error + bool"
  str_py :: "'n \<Rightarrow> string"

text \<open>
  A binary operator applied to two expressions: Python evaluates the left operand, then
  the right one, then applies the operator. \<open>unop\<close> is the same for the unary minus.
\<close>

definition binop ::
  "('n \<Rightarrow> 'n \<Rightarrow> error + 'n) \<Rightarrow> error + 'n \<Rightarrow> error + 'n \<Rightarrow> error + 'n" where
  "binop f a b = bind_err a (\<lambda>x. bind_err b (\<lambda>y. f x y))"

definition unop :: "('n \<Rightarrow> 'n) \<Rightarrow> error + 'n \<Rightarrow> error + 'n" where
  "unop f a = bind_err a (\<lambda>x. Inr (f x))"

text \<open>
  \<^verbatim>\<open>x / y\<close>: a divisor equal to zero raises \<^verbatim>\<open>ZeroDivisionError\<close>. (Python converts an
  integer dividend to a float first when the divisor is a float, and an integer beyond the
  range of the floats fails there. The program divides by 2 and by a magnitude; a
  magnitude is zero only if the sum of the squares is, and the square of such an integer
  has by then made the sum nonzero or stopped the run.)
\<close>

definition truediv :: "'n arith \<Rightarrow> 'n \<Rightarrow> 'n \<Rightarrow> error + 'n" where
  "truediv A x y = (if eq_py A y (lit A 0) then Inl ZeroDivisionError else quot_py A x y)"

text \<open>\<^verbatim>\<open>sum(xs)\<close>: the additions start from the integer 0 and go from left to right.\<close>

fun sum_from :: "'n arith \<Rightarrow> 'n \<Rightarrow> 'n list \<Rightarrow> error + 'n" where
  "sum_from A acc [] = Inr acc"
| "sum_from A acc (x # xs) = bind_err (add_py A acc x) (\<lambda>s. sum_from A s xs)"

definition sum_py :: "'n arith \<Rightarrow> 'n list \<Rightarrow> error + 'n" where
  "sum_py A xs = sum_from A (lit A 0) xs"

section \<open>Winding normalisation\<close>

text \<open>
  The summand of \<^verbatim>\<open>convert_to_clockwise\<close>:
  \<^verbatim>\<open>lambda x1, x2: (x2[0] - x1[0]) * (x2[1] + x1[1])\<close>.
\<close>

definition pol_term :: "'n arith \<Rightarrow> 'n list \<Rightarrow> 'n list \<Rightarrow> error + 'n" where
  "pol_term A x1 x2 =
     binop (mul_py A) (binop (sub_py A) (getitem x2 0) (getitem x1 0))
                      (binop (add_py A) (getitem x2 1) (getitem x1 1))"

text \<open>
  \<^verbatim>\<open>pol_sum = sum(list(map(lambda x1, x2: ..., part_list, rotate(part_list, 1))))\<close>
\<close>

definition pol_sum :: "'n arith \<Rightarrow> 'n list list \<Rightarrow> error + 'n" where
  "pol_sum A part_list =
     bind_err (map_err (\<lambda>(x1, x2). pol_term A x1 x2) (zip part_list (rotate_py part_list 1)))
       (sum_py A)"

text \<open>
  \<^verbatim>\<open>def convert_to_clockwise(part_list):
      pol_sum = sum(list(map(..., part_list, rotate(part_list, 1))))
      if pol_sum == 0:
          print(...)
          sys.exit()
      elif pol_sum > 0:
          return reversed(part_list)
      else:
          return part_list\<close>

  The argument is a list in the run. Given the iterator of an earlier \<^verbatim>\<open>reversed\<close>, the
  slice in \<^verbatim>\<open>rotate\<close> raises \<^verbatim>\<open>TypeError\<close>. The second branch returns the iterator
  \<^verbatim>\<open>reversed(part_list)\<close>, not a list.
\<close>

fun convert_to_clockwise :: "'n arith \<Rightarrow> 'n list pyseq \<Rightarrow> error + 'n list pyseq" where
  "convert_to_clockwise A (PyReversed l) = Inl TypeError"
| "convert_to_clockwise A (PyList part_list) =
     bind_err (pol_sum A part_list) (\<lambda>s.
       if eq_py A s (lit A 0) then
         Inl (Exit ''[FAILED]\<newline>convert_to_clockwise: Error. Polygon is neither clockwise nor counter-clockwise.'')
       else bind_err (gt_py A s (lit A 0)) (\<lambda>positive.
         if positive then Inr (PyReversed part_list) else Inr (PyList part_list)))"




section \<open>The record registry\<close>

subsection \<open>Decimal numerals\<close>

text \<open>
  Record ids are Python integers that start above the scaffold's ids and only grow, so
  they are natural numbers here. \<open>str_nat\<close> is \<^verbatim>\<open>str\<close> on such an integer;
  \<open>py_int\<close> is \<^verbatim>\<open>int\<close> on a string of decimal digits. (\<^verbatim>\<open>int\<close> also accepts a sign,
  surrounding blanks and underscores between digits; no line of the registry has one after
  its \<^verbatim>\<open>#\<close>, and the model answers \<open>ValueError\<close> for every string that is not all digits.)
\<close>

definition digit_char :: "nat \<Rightarrow> char" where
  "digit_char d = char_of (48 + d)"

function str_nat :: "nat \<Rightarrow> string" where
  "str_nat n = (if n < 10 then [digit_char n] else str_nat (n div 10) @ [digit_char (n mod 10)])"
  by pat_completeness auto
termination
  by (relation "measure id") auto

declare str_nat.simps [simp del]

definition is_digit :: "char \<Rightarrow> bool" where
  "is_digit c = (48 \<le> (of_char c :: nat) \<and> (of_char c :: nat) \<le> 57)"

definition digit_val :: "char \<Rightarrow> nat" where
  "digit_val c = of_char c - 48"

definition py_int :: "string \<Rightarrow> error + nat" where
  "py_int s =
     (if s \<noteq> [] \<and> list_all is_digit s then Inr (foldl (\<lambda>acc c. 10 * acc + digit_val c) 0 s)
      else Inl ValueError)"

subsection \<open>Reading the id of a line\<close>

text \<open>
  \<^verbatim>\<open>re.search('#(.+?)=', line)\<close>: the leftmost \<^verbatim>\<open>#\<close> that is followed by at least one
  character other than a newline and then, with no newline in between, by \<^verbatim>\<open>=\<close>; the
  group is the shortest such run. \<open>lazy_group acc cs\<close> extends the run \<open>acc\<close> over \<open>cs\<close>,
  \<open>group_at cs\<close> tries the match with the \<^verbatim>\<open>#\<close> just before \<open>cs\<close>, and \<open>re_search\<close>
  moves the start from left to right.
\<close>

fun lazy_group :: "string \<Rightarrow> string \<Rightarrow> string option" where
  "lazy_group acc [] = None"
| "lazy_group acc (c # cs) =
     (if c = CHR ''='' then Some acc
      else if c = CHR 0x0A then None
      else lazy_group (acc @ [c]) cs)"

fun group_at :: "string \<Rightarrow> string option" where
  "group_at [] = None"
| "group_at (c # cs) = (if c = CHR 0x0A then None else lazy_group [c] cs)"

fun re_search :: "string \<Rightarrow> string option" where
  "re_search [] = None"
| "re_search (c # cs) =
     (if c = CHR ''#'' then (case group_at cs of Some grp \<Rightarrow> Some grp | None \<Rightarrow> re_search cs)
      else re_search cs)"

text \<open>
  \<^verbatim>\<open>def line_index(line):
      search_result = re.search('#(.+?)=', line)
      return 0 if search_result is None else int(search_result.group(1))\<close>
\<close>

definition line_index :: "string \<Rightarrow> error + nat" where
  "line_index line = (case re_search line of None \<Rightarrow> Inr 0 | Some grp \<Rightarrow> py_int grp)"

subsection \<open>The global state and the intern operation\<close>

text \<open>
  The module's mutable globals: the records created so far, the next id, and the counter
  that names the solids.
\<close>

record globals =
  work_array :: "string list"
  current_index :: nat
  part_body_index :: nat

text \<open>\<^verbatim>\<open>item.endswith(string_in)\<close>\<close>

definition endswith :: "string \<Rightarrow> string \<Rightarrow> bool" where
  "endswith item string_in =
     (length string_in \<le> length item \<and> drop (length item - length string_in) item = string_in)"

text \<open>
  \<^verbatim>\<open>def item_exists_q(string_in):
      if not work_array:
          return False
      search_result = [i for i, item in enumerate(work_array) if item.endswith(string_in)]
      return False if not search_result else True\<close>
\<close>

definition item_exists_q :: "globals \<Rightarrow> string \<Rightarrow> bool" where
  "item_exists_q g string_in =
     (if work_array g = [] then False
      else filter (\<lambda>item. endswith item string_in) (work_array g) \<noteq> [])"

text \<open>
  \<^verbatim>\<open>def existing_item_ln(string_in):
      if not work_array:
          return False
      if not item_exists_q(string_in):
          return False
      search_result = [item for item in work_array if item.endswith(string_in)]
      return line_index(search_result[0])\<close>

  \<open>None\<close> stands for the \<^verbatim>\<open>False\<close> of the first two returns.
\<close>

definition existing_item_ln :: "globals \<Rightarrow> string \<Rightarrow> error + nat option" where
  "existing_item_ln g string_in =
     (if work_array g = [] then Inr None
      else if \<not> item_exists_q g string_in then Inr None
      else (case line_index (hd (filter (\<lambda>item. endswith item string_in) (work_array g))) of
              Inl e \<Rightarrow> Inl e
            | Inr i \<Rightarrow> Inr (Some i)))"

text \<open>
  \<^verbatim>\<open>def new_item(string_in):
      global current_index
      global work_array
      if item_exists_q(string_in):
          return_index = existing_item_ln(string_in)
      else:
          work_array.append('#' + str(current_index) + '=' + string_in)
          return_index = current_index
          current_index += 1
      return return_index\<close>

  A computation on the globals either stops with an error or returns a value and the new
  globals. The \<^verbatim>\<open>False\<close> of \<^verbatim>\<open>existing_item_ln\<close> cannot come back under the guard
  \<^verbatim>\<open>item_exists_q\<close> (lemma \<open>existing_item_ln_guarded\<close>); the model gives that branch
  the integer value of \<^verbatim>\<open>False\<close>.
\<close>

type_synonym 'a gen = "globals \<Rightarrow> error + ('a \<times> globals)"

definition item_line :: "nat \<Rightarrow> string \<Rightarrow> string" where
  "item_line i string_in = CHR ''#'' # str_nat i @ CHR ''='' # string_in"

definition new_item :: "string \<Rightarrow> nat gen" where
  "new_item string_in g =
     (if item_exists_q g string_in then
        (case existing_item_ln g string_in of
           Inl e \<Rightarrow> Inl e
         | Inr None \<Rightarrow> Inr (0, g)
         | Inr (Some return_index) \<Rightarrow> Inr (return_index, g))
      else
        Inr (current_index g,
             g\<lparr>work_array := work_array g @ [item_line (current_index g) string_in],
               current_index := current_index g + 1\<rparr>))"

text \<open>Sequencing of computations on the globals: the first error stops the run.\<close>

definition return_gen :: "'a \<Rightarrow> 'a gen" where
  "return_gen a g = Inr (a, g)"

definition bind_gen :: "'a gen \<Rightarrow> ('a \<Rightarrow> 'b gen) \<Rightarrow> 'b gen" where
  "bind_gen m f g = (case m g of Inl e \<Rightarrow> Inl e | Inr (a, g') \<Rightarrow> f a g')"

definition lift_gen :: "error + 'a \<Rightarrow> 'a gen" where
  "lift_gen r g = (case r of Inl e \<Rightarrow> Inl e | Inr a \<Rightarrow> Inr (a, g))"

fun map_gen :: "('a \<Rightarrow> 'b gen) \<Rightarrow> 'a list \<Rightarrow> 'b list gen" where
  "map_gen f [] = return_gen []"
| "map_gen f (x # xs) =
     bind_gen (f x) (\<lambda>y. bind_gen (map_gen f xs) (\<lambda>ys. return_gen (y # ys)))"

section \<open>Formatting helpers and vector arithmetic\<close>

text \<open>
  \<^verbatim>\<open>def to_coord(clist):
      if len(clist) != 3:
          print('to_coord: Error. Coordinates not 3D.')
          sys.exit()
      return str(clist[0]) + ',' + str(clist[1]) + ',' + str(clist[2])\<close>
\<close>

definition to_coord :: "'n arith \<Rightarrow> 'n list \<Rightarrow> error + string" where
  "to_coord A clist =
     (if length clist \<noteq> 3 then Inl (Exit ''to_coord: Error. Coordinates not 3D.'')
      else Inr (str_py A (clist ! 0) @ '','' @ str_py A (clist ! 1) @ '','' @ str_py A (clist ! 2)))"

text \<open>
  \<^verbatim>\<open>to_step_list\<close> takes one id or a list of ids; an empty list fails at
  \<^verbatim>\<open>slist[-1]\<close>.
\<close>

datatype step_arg = Scalar nat | Listed "nat list"

fun to_step_list :: "step_arg \<Rightarrow> error + string" where
  "to_step_list (Scalar slist) = Inr (CHR ''#'' # str_nat slist)"
| "to_step_list (Listed slist) =
     (if slist = [] then Inl IndexError
      else Inr (concat (map (\<lambda>j. CHR ''#'' # str_nat j @ '','') (butlast slist)) @
                CHR ''#'' # str_nat (last slist)))"

text \<open>
  \<^verbatim>\<open>def fort_bool(bool_in):
      return '.T.' if (bool_in == True) or (bool_in == '.T.') else '.F.'\<close>

  The flag is a Python bool or, in \<^verbatim>\<open>edge_curve_0\<close>, an already formatted string.
\<close>

datatype flag = PyBool bool | PyStr string

definition fort_bool :: "flag \<Rightarrow> string" where
  "fort_bool bool_in = (if bool_in = PyBool True \<or> bool_in = PyStr ''.T.'' then ''.T.'' else ''.F.'')"

text \<open>\<^verbatim>\<open>list(map(operator.add, a, b))\<close> and \<^verbatim>\<open>list(map(operator.sub, a, b))\<close>: the
  shorter list bounds the result.\<close>

definition vadd :: "'n arith \<Rightarrow> 'n list \<Rightarrow> 'n list \<Rightarrow> error + 'n list" where
  "vadd A a b = map_err (\<lambda>(x, y). add_py A x y) (zip a b)"

definition vsub :: "'n arith \<Rightarrow> 'n list \<Rightarrow> 'n list \<Rightarrow> error + 'n list" where
  "vsub A a b = map_err (\<lambda>(x, y). sub_py A x y) (zip a b)"

text \<open>
  \<^verbatim>\<open>def normalize(vector_in):
      if len(vector_in) != 3:
          print('normalize: Error. Coordinates not 3D.')
          sys.exit()
      magnitude = math.sqrt(sum([i ** 2 for i in vector_in]))
      return [x / magnitude for x in vector_in]\<close>

  There is no test of the magnitude.
\<close>

definition magnitude :: "'n arith \<Rightarrow> 'n list \<Rightarrow> error + 'n" where
  "magnitude A vector_in =
     bind_err (map_err (pow2_py A) vector_in) (\<lambda>squares.
     bind_err (sum_py A squares) (sqrt_py A))"

definition normalize_py :: "'n arith \<Rightarrow> 'n list \<Rightarrow> error + 'n list" where
  "normalize_py A vector_in =
     (if length vector_in \<noteq> 3 then Inl (Exit ''normalize: Error. Coordinates not 3D.'')
      else bind_err (magnitude A vector_in) (\<lambda>m. map_err (\<lambda>x. truediv A x m) vector_in))"

text \<open>
  \<^verbatim>\<open>def cross_product(x, y):
      return [-x[2] * y[1] + x[1] * y[2], x[2] * y[0] - x[0] * y[2],
              -x[1] * y[0] + x[0] * y[1]]\<close>
\<close>

definition cross_product :: "'n arith \<Rightarrow> 'n list \<Rightarrow> 'n list \<Rightarrow> error + 'n list" where
  "cross_product A x y =
     bind_err (binop (add_py A)
                 (binop (mul_py A) (unop (neg_py A) (getitem x 2)) (getitem y 1))
                 (binop (mul_py A) (getitem x 1) (getitem y 2))) (\<lambda>c0.
     bind_err (binop (sub_py A)
                 (binop (mul_py A) (getitem x 2) (getitem y 0))
                 (binop (mul_py A) (getitem x 0) (getitem y 2))) (\<lambda>c1.
     bind_err (binop (add_py A)
                 (binop (mul_py A) (unop (neg_py A) (getitem x 1)) (getitem y 0))
                 (binop (mul_py A) (getitem x 0) (getitem y 1))) (\<lambda>c2.
     Inr [c0, c1, c2])))"

text \<open>\<^verbatim>\<open>xs == [0, 0, 0]\<close>: lists are equal when they have the same length and equal
  elements.\<close>

definition is_zero_vector :: "'n arith \<Rightarrow> 'n list \<Rightarrow> bool" where
  "is_zero_vector A xs = list_all2 (eq_py A) xs [lit A 0, lit A 0, lit A 0]"

section \<open>Record builders\<close>

text \<open>
  Every builder formats its record text and interns it with \<open>new_item\<close>. Arguments are
  evaluated from left to right, as Python does, so the order of the \<open>bind_gen\<close>s is the
  order in which the source touches the registry or can fail.
\<close>

definition line :: "'n arith \<Rightarrow> 'n list \<Rightarrow> 'n list \<Rightarrow> nat gen" where
  "line A origin direction =
     bind_gen (lift_gen (to_coord A origin)) (\<lambda>oc.
     bind_gen (new_item (''CARTESIAN_POINT('Origin Line',('' @ oc @ '')) ;\<newline>'')) (\<lambda>coord_ln.
     bind_gen (lift_gen (normalize_py A direction)) (\<lambda>nd.
     bind_gen (lift_gen (to_coord A nd)) (\<lambda>dc.
     bind_gen (new_item (''DIRECTION('Vector Direction',('' @ dc @ '')) ;\<newline>'')) (\<lambda>dir_ln.
     bind_gen (new_item (''VECTOR('Line Direction',#'' @ str_nat dir_ln @ '',1.) ;\<newline>'')) (\<lambda>vec_ln.
     new_item (''LINE('Line',#'' @ str_nat coord_ln @ '',#'' @ str_nat vec_ln @ '') ;\<newline>'')))))))"

definition vertex :: "'n arith \<Rightarrow> 'n list \<Rightarrow> nat gen" where
  "vertex A coord_in =
     bind_gen (lift_gen (to_coord A coord_in)) (\<lambda>c.
     bind_gen (new_item (''CARTESIAN_POINT('Vertex',('' @ c @ '')) ;\<newline>'')) (\<lambda>coord_ln.
     new_item (''VERTEX_POINT('' @ [CHR 0x27, CHR 0x27] @ '',#'' @ str_nat coord_ln @ '') ;\<newline>'')))"

definition edge_curve :: "nat \<Rightarrow> nat \<Rightarrow> nat \<Rightarrow> flag \<Rightarrow> nat gen" where
  "edge_curve vertex1_ln vertex2_ln line_coord_ln same_sense =
     new_item (''EDGE_CURVE('' @ [CHR 0x27, CHR 0x27] @ '',#'' @ str_nat vertex1_ln @ '',#'' @
       str_nat vertex2_ln @ '',#'' @ str_nat line_coord_ln @ '','' @ fort_bool same_sense @
       '') ;\<newline>'')"

text \<open>
  \<^verbatim>\<open>def edge_curve_0(vertex1, vertex2, same_sense=True):
      return edge_curve(vertex(vertex1), vertex(vertex2), line(
          [x / 2 for x in list(map(operator.add, vertex1, vertex2))],
          list(map(operator.sub, vertex2, vertex1))),
                        fort_bool(same_sense))\<close>
\<close>

definition edge_curve_0 :: "'n arith \<Rightarrow> 'n list \<Rightarrow> 'n list \<Rightarrow> flag \<Rightarrow> nat gen" where
  "edge_curve_0 A vertex1 vertex2 same_sense =
     bind_gen (vertex A vertex1) (\<lambda>v1.
     bind_gen (vertex A vertex2) (\<lambda>v2.
     bind_gen (lift_gen (bind_err (vadd A vertex1 vertex2)
                           (map_err (\<lambda>x. truediv A x (lit A 2))))) (\<lambda>middle.
     bind_gen (lift_gen (vsub A vertex2 vertex1)) (\<lambda>direction.
     bind_gen (line A middle direction) (\<lambda>l.
     edge_curve v1 v2 l (PyStr (fort_bool same_sense)))))))"

definition oriented_edge :: "nat \<Rightarrow> flag \<Rightarrow> nat gen" where
  "oriented_edge edge_curve_ln same_sense =
     new_item (''ORIENTED_EDGE('' @ [CHR 0x27, CHR 0x27] @ '',*,*,#'' @ str_nat edge_curve_ln @
       '','' @ fort_bool same_sense @ '') ;\<newline>'')"

definition edge_loop :: "nat list \<Rightarrow> nat gen" where
  "edge_loop lines =
     bind_gen (lift_gen (to_step_list (Listed lines))) (\<lambda>sl.
     new_item (''EDGE_LOOP('' @ [CHR 0x27, CHR 0x27] @ '',('' @ sl @ '')) ;\<newline>''))"

text \<open>
  \<^verbatim>\<open>def edge_loop_0(vertices):
      return edge_loop(list(
          map(lambda x1, x2: oriented_edge(edge_curve_0(x1, x2)), vertices,
              rotate(vertices, -1))))\<close>
\<close>

definition edge_loop_0 :: "'n arith \<Rightarrow> 'n list list \<Rightarrow> nat gen" where
  "edge_loop_0 A vertices =
     bind_gen
       (map_gen (\<lambda>(x1, x2). bind_gen (edge_curve_0 A x1 x2 (PyBool True))
                                (\<lambda>e. oriented_edge e (PyBool True)))
          (zip vertices (rotate_py vertices (- 1))))
       edge_loop"

definition face_outer_bound :: "nat \<Rightarrow> flag \<Rightarrow> nat gen" where
  "face_outer_bound edge_loop_ln same_sense =
     new_item (''FACE_OUTER_BOUND('' @ [CHR 0x27, CHR 0x27] @ '',#'' @ str_nat edge_loop_ln @
       '','' @ fort_bool same_sense @ '') ;\<newline>'')"

definition edge_loop_1 :: "'n arith \<Rightarrow> 'n list list \<Rightarrow> flag \<Rightarrow> nat gen" where
  "edge_loop_1 A vertices same_sense =
     bind_gen (edge_loop_0 A vertices) (\<lambda>l. face_outer_bound l same_sense)"

definition axis2_placement_3d :: "'n arith \<Rightarrow> 'n list \<Rightarrow> 'n list \<Rightarrow> 'n list \<Rightarrow> nat gen" where
  "axis2_placement_3d A origin_coord direction1 direction2 =
     bind_gen (lift_gen (to_coord A origin_coord)) (\<lambda>oc.
     bind_gen (new_item (''CARTESIAN_POINT('Axis2P3D Location',('' @ oc @ '')) ;\<newline>'')) (\<lambda>origin_ln.
     bind_gen (lift_gen (to_coord A direction1)) (\<lambda>c1.
     bind_gen (new_item (''DIRECTION('Axis2P3D ZDirection',('' @ c1 @ '')) ;\<newline>'')) (\<lambda>direction1_ln.
     bind_gen (lift_gen (to_coord A direction2)) (\<lambda>c2.
     bind_gen (new_item (''DIRECTION('Axis2P3D XDirection',('' @ c2 @ '')) ;\<newline>'')) (\<lambda>direction2_ln.
     new_item (''AXIS2_PLACEMENT_3D('Plane Axis2P3D',#'' @ str_nat origin_ln @ '',#'' @
       str_nat direction1_ln @ '',#'' @ str_nat direction2_ln @ '') ;\<newline>'')))))))"

definition plane :: "nat \<Rightarrow> nat gen" where
  "plane axis2_placement_3d_ln =
     new_item (''PLANE('' @ [CHR 0x27, CHR 0x27] @ '',#'' @ str_nat axis2_placement_3d_ln @
       '') ;\<newline>'')"

definition advanced_face :: "nat \<Rightarrow> nat \<Rightarrow> flag \<Rightarrow> nat gen" where
  "advanced_face face_outer_bound_ln plane_ln same_sense_plane =
     bind_gen (lift_gen (to_step_list (Scalar face_outer_bound_ln))) (\<lambda>sl.
     new_item (''ADVANCED_FACE('PartBody',('' @ sl @ ''),#'' @ str_nat plane_ln @ '','' @
       fort_bool same_sense_plane @ '') ;\<newline>''))"

text \<open>
  The test of \<^verbatim>\<open>advanced_face_0\<close>,
  \<^verbatim>\<open>list(map(operator.add, normalize(zaxis), normalize(cross_product(
      list(map(operator.sub, vertices[2], vertices[1])),
      list(map(operator.sub, vertices[2], vertices[0])))))) == [0, 0, 0]\<close>,
  makes no record; its operands are evaluated from left to right.
\<close>

definition same_side_test :: "'n arith \<Rightarrow> 'n list list \<Rightarrow> 'n list \<Rightarrow> error + bool" where
  "same_side_test A vertices zaxis =
     bind_err (normalize_py A zaxis) (\<lambda>nz.
     bind_err (getitem vertices 2) (\<lambda>v2.
     bind_err (getitem vertices 1) (\<lambda>v1.
     bind_err (vsub A v2 v1) (\<lambda>a.
     bind_err (getitem vertices 0) (\<lambda>v0.
     bind_err (vsub A v2 v0) (\<lambda>b.
     bind_err (cross_product A a b) (\<lambda>c.
     bind_err (normalize_py A c) (\<lambda>nc.
     bind_err (vadd A nz nc) (\<lambda>s.
     Inr (is_zero_vector A s))))))))))"

text \<open>
  \<^verbatim>\<open>def advanced_face_0(vertices, zaxis, same_sense_1=True, same_sense_2=True):
      if <test>:
          af_ln = advanced_face(edge_loop_1(vertices, same_sense_1), plane(
              axis2_placement_3d(vertices[0], normalize(zaxis),
                                 normalize(list(map(operator.sub, vertices[1],
                                                    vertices[0]))))),
                                same_sense_2)
      else:
          af_ln = advanced_face(
              edge_loop_1(list(reversed(vertices)), same_sense_1), plane(
                  axis2_placement_3d(vertices[0], normalize(zaxis), normalize(
                      list(map(operator.sub, list(reversed(vertices))[1],
                               list(reversed(vertices))[0]))))), same_sense_2)
      return af_ln\<close>

  Both branches pass \<^verbatim>\<open>vertices[0]\<close>, of the order given, as the origin of the frame.
\<close>

definition advanced_face_0 ::
  "'n arith \<Rightarrow> 'n list list \<Rightarrow> 'n list \<Rightarrow> flag \<Rightarrow> flag \<Rightarrow> nat gen" where
  "advanced_face_0 A vertices zaxis same_sense_1 same_sense_2 =
     bind_gen (lift_gen (same_side_test A vertices zaxis)) (\<lambda>same.
     if same then
       bind_gen (edge_loop_1 A vertices same_sense_1) (\<lambda>fob.
       bind_gen (lift_gen (getitem vertices 0)) (\<lambda>origin.
       bind_gen (lift_gen (normalize_py A zaxis)) (\<lambda>d1.
       bind_gen (lift_gen (bind_err (getitem vertices 1) (\<lambda>v1.
                           bind_err (getitem vertices 0) (\<lambda>v0.
                           bind_err (vsub A v1 v0) (normalize_py A))))) (\<lambda>d2.
       bind_gen (axis2_placement_3d A origin d1 d2) (\<lambda>a.
       bind_gen (plane a) (\<lambda>p.
       advanced_face fob p same_sense_2))))))
     else
       bind_gen (edge_loop_1 A (rev vertices) same_sense_1) (\<lambda>fob.
       bind_gen (lift_gen (getitem vertices 0)) (\<lambda>origin.
       bind_gen (lift_gen (normalize_py A zaxis)) (\<lambda>d1.
       bind_gen (lift_gen (bind_err (getitem (rev vertices) 1) (\<lambda>v1.
                           bind_err (getitem (rev vertices) 0) (\<lambda>v0.
                           bind_err (vsub A v1 v0) (normalize_py A))))) (\<lambda>d2.
       bind_gen (axis2_placement_3d A origin d1 d2) (\<lambda>a.
       bind_gen (plane a) (\<lambda>p.
       advanced_face fob p same_sense_2)))))))"

definition closed_shell :: "nat list \<Rightarrow> nat gen" where
  "closed_shell advanced_face_ln_list =
     bind_gen (lift_gen (to_step_list (Listed advanced_face_ln_list))) (\<lambda>sl.
     new_item (''CLOSED_SHELL('Closed Shell',('' @ sl @ '')) ;\<newline>''))"

text \<open>
  \<^verbatim>\<open>def manifold_solid_brep(closed_shell_ln):
      global part_body_index
      msb = new_item("MANIFOLD_SOLID_BREP('PartBody." + str(part_body_index) + "',#"
                     + str(closed_shell_ln) + ") ;\n")
      part_body_index += 1
      return msb\<close>
\<close>

definition manifold_solid_brep :: "nat \<Rightarrow> nat gen" where
  "manifold_solid_brep closed_shell_ln g =
     (case new_item (''MANIFOLD_SOLID_BREP('PartBody.'' @ str_nat (part_body_index g) @
             [CHR 0x27] @ '',#'' @ str_nat closed_shell_ln @ '') ;\<newline>'') g of
        Inl e \<Rightarrow> Inl e
      | Inr (msb, g') \<Rightarrow> Inr (msb, g'\<lparr>part_body_index := part_body_index g' + 1\<rparr>))"

definition advanced_brep_shape_representation :: "nat list \<Rightarrow> nat \<Rightarrow> nat gen" where
  "advanced_brep_shape_representation manifold_solid_brep_list init_ln =
     bind_gen (lift_gen (to_step_list (Listed manifold_solid_brep_list))) (\<lambda>sl.
     new_item (''ADVANCED_BREP_SHAPE_REPRESENTATION('NONE',('' @ sl @ ''),#'' @ str_nat init_ln @
       '') ;\<newline>''))"

definition shape_representation_relationship :: "nat \<Rightarrow> nat \<Rightarrow> nat gen" where
  "shape_representation_relationship advanced_brep_shape_representation_ln shape_representation_ln =
     new_item (''SHAPE_REPRESENTATION_RELATIONSHIP(' ',' ',#'' @ str_nat shape_representation_ln @
       '',#'' @ str_nat advanced_brep_shape_representation_ln @ '') ;\<newline>'')"

section \<open>Extrusion of one polygon\<close>

text \<open>
  \<^verbatim>\<open>def zface(vertex1, vertex2, geom_depth_list):
      z_neg = geom_depth_list[0]
      z_pos = geom_depth_list[1]
      return advanced_face_0(
          [list(map(operator.add, vertex1, [0, 0, z_neg])),
           list(map(operator.add, vertex2, [0, 0, z_neg])),
           list(map(operator.add, vertex2, [0, 0, z_pos])),
           list(map(operator.add, vertex1, [0, 0, z_pos]))],
          normalize(cross_product(list(map(operator.sub, vertex2, vertex1)),
                                  [0, 0, -(z_pos - z_neg)])))\<close>

  \<open>zface_corners\<close> and \<open>zface_hint\<close> are the two arguments of the call, evaluated in
  this order.
\<close>

definition zface_corners ::
  "'n arith \<Rightarrow> 'n list \<Rightarrow> 'n list \<Rightarrow> 'n \<Rightarrow> 'n \<Rightarrow> error + 'n list list" where
  "zface_corners A vertex1 vertex2 z_neg z_pos =
     bind_err (vadd A vertex1 [lit A 0, lit A 0, z_neg]) (\<lambda>c1.
     bind_err (vadd A vertex2 [lit A 0, lit A 0, z_neg]) (\<lambda>c2.
     bind_err (vadd A vertex2 [lit A 0, lit A 0, z_pos]) (\<lambda>c3.
     bind_err (vadd A vertex1 [lit A 0, lit A 0, z_pos]) (\<lambda>c4.
     Inr [c1, c2, c3, c4]))))"

definition zface_hint :: "'n arith \<Rightarrow> 'n list \<Rightarrow> 'n list \<Rightarrow> 'n \<Rightarrow> 'n \<Rightarrow> error + 'n list" where
  "zface_hint A vertex1 vertex2 z_neg z_pos =
     bind_err (vsub A vertex2 vertex1) (\<lambda>d.
     bind_err (sub_py A z_pos z_neg) (\<lambda>h.
     bind_err (cross_product A d [lit A 0, lit A 0, neg_py A h]) (normalize_py A)))"

definition zface :: "'n arith \<Rightarrow> 'n list \<Rightarrow> 'n list \<Rightarrow> 'n list \<Rightarrow> nat gen" where
  "zface A vertex1 vertex2 geom_depth_list =
     bind_gen (lift_gen (getitem geom_depth_list 0)) (\<lambda>z_neg.
     bind_gen (lift_gen (getitem geom_depth_list 1)) (\<lambda>z_pos.
     bind_gen (lift_gen (zface_corners A vertex1 vertex2 z_neg z_pos)) (\<lambda>corners.
     bind_gen (lift_gen (zface_hint A vertex1 vertex2 z_neg z_pos)) (\<lambda>zaxis.
     advanced_face_0 A corners zaxis (PyBool True) (PyBool True)))))"

text \<open>
  \<^verbatim>\<open>def xyface(vertex_list, depth, zdir):
      return advanced_face_0(list(
          map(lambda x: list(map(operator.add, x, [0, 0, depth])), vertex_list)),
          zdir)\<close>
\<close>

definition xyface :: "'n arith \<Rightarrow> 'n list list \<Rightarrow> 'n \<Rightarrow> 'n list \<Rightarrow> nat gen" where
  "xyface A vertex_list depth zdir =
     bind_gen (lift_gen (map_err (\<lambda>x. vadd A x [lit A 0, lit A 0, depth]) vertex_list)) (\<lambda>lifted.
     advanced_face_0 A lifted zdir (PyBool True) (PyBool True))"

text \<open>
  \<^verbatim>\<open>def af2d3d(vertex_list, geom_depth_list):
      taflist = []
      z_neg = geom_depth_list[0]
      z_pos = geom_depth_list[1]
      taflist.append(xyface(vertex_list, z_pos, [0, 0, 1]))
      taflist.append(xyface(vertex_list, z_neg, [0, 0, -1]))
      taflist += list(map(lambda x1, x2: zface(x1, x2, geom_depth_list),
                          vertex_list, rotate(vertex_list, -1)))
      return taflist\<close>
\<close>

definition af2d3d :: "'n arith \<Rightarrow> 'n list list \<Rightarrow> 'n list \<Rightarrow> nat list gen" where
  "af2d3d A vertex_list geom_depth_list =
     bind_gen (lift_gen (getitem geom_depth_list 0)) (\<lambda>z_neg.
     bind_gen (lift_gen (getitem geom_depth_list 1)) (\<lambda>z_pos.
     bind_gen (xyface A vertex_list z_pos [lit A 0, lit A 0, lit A 1]) (\<lambda>top.
     bind_gen (xyface A vertex_list z_neg [lit A 0, lit A 0, lit A (- 1)]) (\<lambda>bottom.
     bind_gen (map_gen (\<lambda>(x1, x2). zface A x1 x2 geom_depth_list)
                 (zip vertex_list (rotate_py vertex_list (- 1)))) (\<lambda>sides.
     return_gen ([top, bottom] @ sides))))))"

definition af_list_2_part :: "nat list \<Rightarrow> nat gen" where
  "af_list_2_part af_list = bind_gen (closed_shell af_list) manifold_solid_brep"

definition part_2_assembly :: "nat list \<Rightarrow> nat gen" where
  "part_2_assembly part_list =
     bind_gen (advanced_brep_shape_representation part_list 45)
       (\<lambda>r. shape_representation_relationship r 48)"

text \<open>\<^verbatim>\<open>generate_part\<close> is only called with \<^verbatim>\<open>clockwise_p\<close> left at \<^verbatim>\<open>True\<close>.\<close>

definition generate_part :: "'n arith \<Rightarrow> 'n list list \<Rightarrow> 'n list \<Rightarrow> nat gen" where
  "generate_part A vert_list geom_depth =
     bind_gen (af2d3d A vert_list geom_depth) af_list_2_part"

section \<open>The document scaffold and the initial globals\<close>

text \<open>
  \<^verbatim>\<open>file_array\<close>, the fixed header and footer of the output with the marker line where
  the records go; every line gets a newline appended. The name of the output file and the
  six fields of \<^verbatim>\<open>datetime.now()\<close> are parameters.
\<close>

definition file_array ::
  "string \<Rightarrow> nat \<Rightarrow> nat \<Rightarrow> nat \<Rightarrow> nat \<Rightarrow> nat \<Rightarrow> nat \<Rightarrow> string list" where
  "file_array file_out_name year month day hour minute second =
     map (\<lambda>i. i @ ''\<newline>'')
     [''ISO-10303-21;'',
      ''HEADER;'',
      ''FILE_DESCRIPTION(('none'),'2;1');'',
      [],
      ''FILE_NAME('' @ [CHR 0x27] @ file_out_name @ [CHR 0x27] @ '','none',('none'),('none'),'none','none','none');'',
      [],
      ''FILE_SCHEMA(('CONFIG_CONTROL_DESIGN'));'',
      [],
      ''ENDSEC;'',
      ''DATA;'',
      ''#1=APPLICATION_CONTEXT('configuration controlled 3D design of mechanical parts and assemblies') ;'',
      ''#2=MECHANICAL_CONTEXT(' ',#1,'mechanical') ;'',
      ''#3=DESIGN_CONTEXT(' ',#1,'design') ;'',
      ''#4=APPLICATION_PROTOCOL_DEFINITION('international standard','config_control_design',1994,#1) ;'',
      ''#5=PRODUCT('Part1','' @ [CHR 0x27, CHR 0x27] @ '','' @ [CHR 0x27, CHR 0x27] @ '',(#2)) ;'',
      ''#6=PRODUCT_DEFINITION_FORMATION_WITH_SPECIFIED_SOURCE('' @ [CHR 0x27, CHR 0x27] @ '',' ',#5,.NOT_KNOWN.) ;'',
      ''#7=PRODUCT_CATEGORY('part',$) ;'',
      ''#8=PRODUCT_RELATED_PRODUCT_CATEGORY('detail',$,(#5)) ;'',
      ''#9=PRODUCT_CATEGORY_RELATIONSHIP(' ',' ',#7,#8) ;'',
      ''#10=COORDINATED_UNIVERSAL_TIME_OFFSET(0,0,.AHEAD.) ;'',
      ''#11=CALENDAR_DATE('' @ str_nat year @ '','' @ str_nat month @ '','' @ str_nat day @ '') ;'',
      ''#12=LOCAL_TIME('' @ str_nat hour @ '','' @ str_nat minute @ '','' @ str_nat second @ ''.,#10) ;'',
      ''#13=DATE_AND_TIME(#11,#12) ;'',
      ''#14=PRODUCT_DEFINITION('' @ [CHR 0x27, CHR 0x27] @ '',' ',#6,#3) ;'',
      ''#15=SECURITY_CLASSIFICATION_LEVEL('unclassified') ;'',
      ''#16=SECURITY_CLASSIFICATION(' ',' ',#15) ;'',
      ''#17=DATE_TIME_ROLE('classification_date') ;'',
      ''#18=CC_DESIGN_DATE_AND_TIME_ASSIGNMENT(#13,#17,(#16)) ;'',
      ''#19=APPROVAL_ROLE('APPROVER') ;'',
      ''#20=APPROVAL_STATUS('not_yet_approved') ;'',
      ''#21=APPROVAL(#20,' ') ;'',
      ''#22=PERSON(' ',' ',' ',$,$,$) ;'',
      ''#23=ORGANIZATION(' ',' ',' ') ;'',
      ''#24=PERSONAL_ADDRESS(' ',' ',' ',' ',' ',' ',' ',' ',' ',' ',' ',' ',(#22),' ') ;'',
      ''#25=PERSON_AND_ORGANIZATION(#22,#23) ;'',
      ''#26=PERSON_AND_ORGANIZATION_ROLE('classification_officer') ;'',
      ''#27=CC_DESIGN_PERSON_AND_ORGANIZATION_ASSIGNMENT(#25,#26,(#16)) ;'',
      ''#28=DATE_TIME_ROLE('creation_date') ;'',
      ''#29=CC_DESIGN_DATE_AND_TIME_ASSIGNMENT(#13,#28,(#14)) ;'',
      ''#30=CC_DESIGN_APPROVAL(#21,(#16,#6,#14)) ;'',
      ''#31=APPROVAL_PERSON_ORGANIZATION(#25,#21,#19) ;'',
      ''#32=APPROVAL_DATE_TIME(#13,#21) ;'',
      ''#33=CC_DESIGN_PERSON_AND_ORGANIZATION_ASSIGNMENT(#25,#34,(#6)) ;'',
      ''#34=PERSON_AND_ORGANIZATION_ROLE('design_supplier') ;'',
      ''#35=CC_DESIGN_PERSON_AND_ORGANIZATION_ASSIGNMENT(#25,#36,(#6,#14)) ;'',
      ''#36=PERSON_AND_ORGANIZATION_ROLE('creator') ;'',
      ''#37=CC_DESIGN_PERSON_AND_ORGANIZATION_ASSIGNMENT(#25,#38,(#5)) ;'',
      ''#38=PERSON_AND_ORGANIZATION_ROLE('design_owner') ;'',
      ''#39=CC_DESIGN_SECURITY_CLASSIFICATION(#16,(#6)) ;'',
      [],
      ''#40=PRODUCT_DEFINITION_SHAPE(' ',' ',#14) ;'',
      ''#41=(LENGTH_UNIT()NAMED_UNIT(*)SI_UNIT(.MILLI.,.METRE.)) ;'',
      ''#42=(NAMED_UNIT(*)PLANE_ANGLE_UNIT()SI_UNIT($,.RADIAN.)) ;'',
      ''#43=(NAMED_UNIT(*)SI_UNIT($,.STERADIAN.)SOLID_ANGLE_UNIT()) ;'',
      ''#44=UNCERTAINTY_MEASURE_WITH_UNIT(LENGTH_MEASURE(0.005),#41,'distance_accuracy_value','CONFUSED CURVE UNCERTAINTY') ;'',
      ''#45=(GEOMETRIC_REPRESENTATION_CONTEXT(3)GLOBAL_UNCERTAINTY_ASSIGNED_CONTEXT((#44))GLOBAL_UNIT_ASSIGNED_CONTEXT((#41,#42,#43))REPRESENTATION_CONTEXT(' ',' ')) ;'',
      [],
      ''#46=CARTESIAN_POINT(' ',(0.,0.,0.)) ;'',
      ''#47=AXIS2_PLACEMENT_3D(' ',#46,$,$) ;'',
      ''#48=SHAPE_REPRESENTATION(' ',(#47),#45) ;'',
      ''#49=SHAPE_DEFINITION_REPRESENTATION(#40,#48) ;'',
      [],
      ''/* Part Specification */'',
      [],
      ''ENDSEC;'',
      ''END-ISO-10303-21;'']"

text \<open>\<^verbatim>\<open>k.startswith('#')\<close>\<close>

definition startswith_hash :: "string \<Rightarrow> bool" where
  "startswith_hash k = (case k of [] \<Rightarrow> False | c # _ \<Rightarrow> c = CHR ''#'')"

text \<open>\<^verbatim>\<open>file_array.index(x)\<close>: the first position of \<open>x\<close>, or \<^verbatim>\<open>ValueError\<close>.\<close>

fun list_index :: "'a list \<Rightarrow> 'a \<Rightarrow> error + nat" where
  "list_index [] x = Inl ValueError"
| "list_index (y # ys) x =
     (if y = x then Inr 0 else (case list_index ys x of Inl e \<Rightarrow> Inl e | Inr n \<Rightarrow> Inr (Suc n)))"

text \<open>A loop of checks that stops at the first failure.\<close>

fun first_error :: "('a \<Rightarrow> error option) \<Rightarrow> 'a list \<Rightarrow> error option" where
  "first_error chk [] = None"
| "first_error chk (x # xs) = (case chk x of Some e \<Rightarrow> Some e | None \<Rightarrow> first_error chk xs)"

text \<open>
  \<^verbatim>\<open>highest_index = line_index(sorted(initial_work_array, key=line_index)[-1])\<close>.
  \<^verbatim>\<open>sorted\<close> computes the key of every line first (and fails where \<^verbatim>\<open>line_index\<close>
  fails), then sorts stably.
\<close>

definition highest_index :: "string list \<Rightarrow> error + nat" where
  "highest_index initial_work_array =
     (case first_error (\<lambda>l. case line_index l of Inl e \<Rightarrow> Some e | Inr _ \<Rightarrow> None)
             initial_work_array of
        Some e \<Rightarrow> Inl e
      | None \<Rightarrow>
          if initial_work_array = [] then Inl IndexError
          else line_index (last (sort_key (\<lambda>l. case line_index l of Inr k \<Rightarrow> k | Inl _ \<Rightarrow> 0)
                                   initial_work_array)))"

text \<open>
  \<^verbatim>\<open>initial_work_array = list(filter(lambda k: k.startswith('#'), file_array))
  highest_index = line_index(sorted(initial_work_array, key=line_index)[-1])
  current_index = highest_index + 1
  part_body_index = 1
  work_array = []\<close>
\<close>

definition initial_globals :: "string list \<Rightarrow> error + globals" where
  "initial_globals scaffold =
     (case highest_index (filter startswith_hash scaffold) of
        Inl e \<Rightarrow> Inl e
      | Inr h \<Rightarrow> Inr \<lparr>work_array = [], current_index = h + 1, part_body_index = 1\<rparr>)"

section \<open>Input values and validation\<close>

text \<open>
  The input is what \<^verbatim>\<open>ast.literal_eval\<close> returned: numbers, strings, lists, tuples and
  \<^verbatim>\<open>None\<close> are modelled (dictionaries, sets and bytes are not; a boolean is one of the
  numbers, as it is for \<^verbatim>\<open>isinstance(x, Number)\<close>).
\<close>

datatype 'n pyval =
  PNum 'n | PStr string | PList "'n pyval list" | PTuple "'n pyval list" | PNone

text \<open>\<^verbatim>\<open>isinstance(x, Number)\<close>, \<^verbatim>\<open>isinstance(x, list)\<close>, the truth value that
  \<^verbatim>\<open>not x\<close> negates, \<^verbatim>\<open>len(x)\<close> and the elements a \<^verbatim>\<open>for\<close> loop visits.\<close>

fun is_number :: "'n pyval \<Rightarrow> bool" where
  "is_number (PNum r) = True"
| "is_number v = False"

fun is_list :: "'n pyval \<Rightarrow> bool" where
  "is_list (PList l) = True"
| "is_list v = False"

fun truthy :: "'n arith \<Rightarrow> 'n pyval \<Rightarrow> bool" where
  "truthy A (PNum r) = (\<not> eq_py A r (lit A 0))"
| "truthy A (PStr s) = (s \<noteq> [])"
| "truthy A (PList l) = (l \<noteq> [])"
| "truthy A (PTuple l) = (l \<noteq> [])"
| "truthy A PNone = False"

fun py_len :: "'n pyval \<Rightarrow> error + nat" where
  "py_len (PList l) = Inr (length l)"
| "py_len (PTuple l) = Inr (length l)"
| "py_len (PStr s) = Inr (length s)"
| "py_len v = Inl TypeError"

fun items :: "'n pyval \<Rightarrow> 'n pyval list" where
  "items (PList l) = l"
| "items (PTuple l) = l"
| "items (PStr s) = map (\<lambda>c. PStr [c]) s"
| "items v = []"

text \<open>The number that a value is; arithmetic on anything else raises \<^verbatim>\<open>TypeError\<close>.\<close>

fun as_number :: "'n pyval \<Rightarrow> error + 'n" where
  "as_number (PNum r) = Inr r"
| "as_number v = Inl TypeError"

text \<open>
  The three nested loops of \<^verbatim>\<open>generate_assembly\<close> over polygons, vertices and
  coordinates. The second test inside the vertex loop of the source asks
  \<^verbatim>\<open>isinstance(part_element, list)\<close>, which the polygon has already passed, so it
  never fires; a vertex that is a nonzero number reaches \<^verbatim>\<open>len\<close> and raises
  \<^verbatim>\<open>TypeError\<close>.
\<close>

definition check_coordinate :: "'n pyval \<Rightarrow> error option" where
  "check_coordinate coordinate_element =
     (if \<not> is_number coordinate_element then
        Some (Exit ''[FAILED]\<newline>generate_assembly: Error. NaN is supplied for a vertex coordinate.'')
      else None)"

definition check_vertex :: "'n arith \<Rightarrow> 'n pyval \<Rightarrow> error option" where
  "check_vertex A vertex_element =
     (if \<not> truthy A vertex_element then
        Some (Exit ''[FAILED]\<newline>generate_assembly: Error. Empty list ofvertex coordinates.'')
      else (case py_len vertex_element of
              Inl e \<Rightarrow> Some e
            | Inr n \<Rightarrow>
                if n < 2 \<or> n > 3 then
                  Some (Exit (''[FAILED]\<newline>generate_assembly: Error. Number of vertex coordinates should be 2 or 3, '' @
                     str_nat n @ '' coordinates supplied.''))
                else first_error check_coordinate (items vertex_element)))"

definition check_part :: "'n arith \<Rightarrow> 'n pyval \<Rightarrow> error option" where
  "check_part A part_element =
     (if \<not> truthy A part_element then
        Some (Exit ''[FAILED]\<newline>generate_assembly: Error. Empty list of vertices.'')
      else if \<not> is_list part_element then
        Some (Exit ''[FAILED]\<newline>generate_assembly: Error. List of vertices expected, scalar supplied'')
      else first_error (check_vertex A) (items part_element))"

definition check_depth :: "'n pyval \<Rightarrow> error option" where
  "check_depth depth_element =
     (if \<not> is_number depth_element then
        Some (Exit ''[FAILED]\<newline>generate_assembly: Error. NaN found in the z-coodinate interval.'')
      else None)"

text \<open>
  \<^verbatim>\<open>def convert_3d(element_in):
      if (isinstance(element_in, list)) and (len(element_in)) == 2 and (
              isinstance(element_in[0], Number)) and (
              isinstance(element_in[1], Number)):
          return [element_in[0], element_in[1], 0]
      else:
          return element_in\<close>
\<close>

fun convert_3d :: "'n arith \<Rightarrow> 'n pyval \<Rightarrow> 'n pyval" where
  "convert_3d A (PList [PNum a, PNum b]) = PList [PNum a, PNum b, PNum (lit A 0)]"
| "convert_3d A element_in = element_in"

section \<open>The generation run\<close>

text \<open>
  Lines 434 and 435 of the source: one solid per polygon, then the two records that tie the
  solids to the document.
  \<^verbatim>\<open>part_list = [generate_part(x, geom_depth_list) for x in list_vert_list]
  part_2_assembly(part_list)\<close>
\<close>

definition build_parts :: "'n arith \<Rightarrow> 'n list list list \<Rightarrow> 'n list \<Rightarrow> nat gen" where
  "build_parts A list_vert_list geom_depth_list =
     bind_gen (map_gen (\<lambda>x. generate_part A x geom_depth_list) list_vert_list) part_2_assembly"

text \<open>
  The interval after the checks of lines 355 to 379: the list of numbers with its first
  two entries in increasing order, or the failure.
\<close>

definition check_interval :: "'n arith \<Rightarrow> 'n pyval \<Rightarrow> error + 'n list" where
  "check_interval A geom_depth_list =
     (if \<not> is_list geom_depth_list then
        Inl (Exit ''[FAILED]\<newline>generate_assembly: Error. z-coordinate interval [z1, z2] expected, scalar supplied.'')
      else if \<not> truthy A geom_depth_list then
        Inl (Exit ''[FAILED]\<newline>generate_assembly: Error. z-coordinate interval [z1, z2] expected, empty list supplied.'')
      else (case first_error check_depth (items geom_depth_list) of
              Some e \<Rightarrow> Inl e
            | None \<Rightarrow>
                bind_err (map_err as_number (items geom_depth_list)) (\<lambda>ds.
                bind_err (getitem ds 0) (\<lambda>z1.
                bind_err (getitem ds 1) (\<lambda>z2.
                if eq_py A z1 z2 then
                  Inl (Exit ''[FAILED]\<newline>generate_assembly: Error. z2 must be different from z1 in the z-coordinate interval [z1, z2].'')
                else bind_err (gt_py A z1 z2) (\<lambda>greater.
                  if greater then Inr (ds[0 := z2, 1 := z1]) else Inr ds))))))"

text \<open>The checks of the polygon list, lines 380 to 423.\<close>

definition check_polygons :: "'n arith \<Rightarrow> 'n pyval \<Rightarrow> error option" where
  "check_polygons A list_vert_list =
     (if \<not> is_list list_vert_list then
        Some (Exit ''[FAILED]\<newline>generate_assembly: Error. List of vertices lists expected, scalar supplied.'')
      else if \<not> truthy A list_vert_list then
        Some (Exit ''[FAILED]\<newline>generate_assembly: Error. Empty list of vertices lists.'')
      else first_error (check_part A) (items list_vert_list))"

text \<open>
  Lines 424 to 428: every vertex goes through \<^verbatim>\<open>convert_3d\<close> and every polygon through
  \<^verbatim>\<open>convert_to_clockwise\<close>. A vertex that has passed the checks is a list or a tuple of
  two or three numbers; \<open>vertex_numbers\<close> reads them.
\<close>

definition vertex_numbers :: "'n arith \<Rightarrow> 'n pyval \<Rightarrow> error + 'n list" where
  "vertex_numbers A vertex_element = map_err as_number (items (convert_3d A vertex_element))"

definition clockwise_polygons :: "'n arith \<Rightarrow> 'n pyval \<Rightarrow> error + 'n list pyseq list" where
  "clockwise_polygons A list_vert_list =
     bind_err (map_err (\<lambda>part_element. map_err (vertex_numbers A) (items part_element))
                 (items list_vert_list)) (\<lambda>polygons.
     map_err (\<lambda>x. convert_to_clockwise A (PyList x)) polygons)"

text \<open>
  Lines 429 to 433: \<^verbatim>\<open>p_coeff * 1.0 * coordinate_element\<close> for every coordinate, in the
  order in which the comprehension visits the polygons, and then for the two bounds.
\<close>

definition scale :: "'n arith \<Rightarrow> 'n \<Rightarrow> 'n \<Rightarrow> error + 'n" where
  "scale A p_coeff x = bind_err (mul_py A p_coeff (one_float A)) (\<lambda>c. mul_py A c x)"

definition scale_polygons ::
  "'n arith \<Rightarrow> 'n \<Rightarrow> 'n list pyseq list \<Rightarrow> error + 'n list list list" where
  "scale_polygons A p_coeff list_vert_list =
     map_err (\<lambda>part_element. map_err (\<lambda>vertex_element. map_err (scale A p_coeff) vertex_element)
                               (elements part_element))
       list_vert_list"

text \<open>
  \<^verbatim>\<open>generate_assembly\<close>. The result is the list of lines written to the output file;
  an error is a run that stopped before the file was opened. \<open>scaffold\<close>, \<open>index1\<close>
  and \<open>g0\<close> are the module's \<^verbatim>\<open>file_array\<close>, \<^verbatim>\<open>index1\<close> and initial globals.
  \<open>prepare\<close> is everything before the first record is made, lines 345 to 433: the
  checks, the winding normalisation and the scaling.
\<close>

definition prepare ::
  "'n arith \<Rightarrow> 'n pyval \<Rightarrow> 'n pyval \<Rightarrow> 'n pyval \<Rightarrow> error + ('n list list list \<times> 'n list)" where
  "prepare A list_vert_list geom_depth_list p_coeff =
     (if \<not> is_number p_coeff then
        Inl (Exit ''[FAILED]\<newline>generate_assembly: Error. NaN supplied for proportionality coefficient.'')
      else bind_err (as_number p_coeff) (\<lambda>p.
        if eq_py A p (lit A 0) then
          Inl (Exit ''[FAILED]\<newline>generate_assembly: Error. Zero supplied as the proportionality coefficient.'')
        else bind_err (check_interval A geom_depth_list) (\<lambda>depths.
          (case check_polygons A list_vert_list of
             Some e \<Rightarrow> Inl e
           | None \<Rightarrow>
               bind_err (clockwise_polygons A list_vert_list) (\<lambda>clockwise.
               bind_err (scale_polygons A p clockwise) (\<lambda>scaled.
               bind_err (map_err (scale A p) depths) (\<lambda>scaled_depths.
               Inr (scaled, scaled_depths))))))))"

definition generate_assembly ::
  "'n arith \<Rightarrow> string list \<Rightarrow> nat \<Rightarrow> globals \<Rightarrow> 'n pyval \<Rightarrow> 'n pyval \<Rightarrow> 'n pyval \<Rightarrow>
   error + string list" where
  "generate_assembly A scaffold index1 g0 list_vert_list geom_depth_list p_coeff =
     bind_err (prepare A list_vert_list geom_depth_list p_coeff) (\<lambda>(polygons, depths).
       (case build_parts A polygons depths g0 of
          Inl e \<Rightarrow> Inl e
        | Inr (r, g) \<Rightarrow> Inr (take index1 scaffold @ work_array g @ drop (index1 + 1) scaffold)))"

text \<open>
  The module's top level after the input has been read: the two checks of the shape of
  \<^verbatim>\<open>data\<close>, the scaffold, the initial globals, and the call of
  \<^verbatim>\<open>generate_assembly\<close>.
\<close>

definition run :: "'n arith \<Rightarrow> string list \<Rightarrow> 'n pyval \<Rightarrow> error + string list" where
  "run A scaffold data =
     (if \<not> is_list data then Inl (Exit ''[FAILED]\<newline>Error. Input data is not a list.'')
      else if length (items data) \<noteq> 3 then
        Inl (Exit ''[FAILED]\<newline>Error. The top-level length of the input data list is not 3.'')
      else (case list_index scaffold ''/* Part Specification */\<newline>'' of
        Inl e \<Rightarrow> Inl e
      | Inr index1 \<Rightarrow> (case initial_globals scaffold of
        Inl e \<Rightarrow> Inl e
      | Inr g0 \<Rightarrow>
          generate_assembly A scaffold index1 g0
            (items data ! 0) (items data ! 1) (items data ! 2))))"

section \<open>Notions used to state the properties\<close>

text \<open>\<open>extends g g'\<close>: the registry of \<open>g'\<close> is that of \<open>g\<close> with records appended.\<close>

definition extends :: "globals \<Rightarrow> globals \<Rightarrow> bool" where
  "extends g g' \<longleftrightarrow> (\<exists>extra. work_array g' = work_array g @ extra)"

text \<open>
  An arithmetic for the examples, on the real numbers: every operation is the exact one,
  as Python's are on floats with the small whole values of the examples, and \<open>str_whole\<close>
  prints a whole number as Python prints a float of that value, with its digits and
  \<^verbatim>\<open>.0\<close>.
\<close>

definition str_whole :: "real \<Rightarrow> string" where
  "str_whole x = (if x < 0 then ''-'' else []) @ str_nat (nat \<lfloor>\<bar>x\<bar>\<rfloor>) @ ''.0''"

definition exact :: "real arith" where
  "exact = \<lparr>lit = of_int, one_float = 1,
     add_py = (\<lambda>x y. Inr (x + y)), sub_py = (\<lambda>x y. Inr (x - y)),
     mul_py = (\<lambda>x y. Inr (x * y)), quot_py = (\<lambda>x y. Inr (x / y)), neg_py = uminus,
     pow2_py = (\<lambda>x. Inr (x ^ 2)),
     sqrt_py = (\<lambda>x. if x < 0 then Inl ValueError else Inr (sqrt x)),
     eq_py = (\<lambda>x y. x = y), gt_py = (\<lambda>x y. Inr (x > y)), str_py = str_whole\<rparr>"


text \<open>The globals at the start of a run on the scaffold of the source, whose highest id
  is 49.\<close>

definition g50 :: globals where
  "g50 = \<lparr>work_array = [], current_index = 50, part_body_index = 1\<rparr>"

text \<open>
  The invariant of the registry during a run that started above the id \<open>h\<close>: the stored
  lines are \<^verbatim>\<open>#<id>=<text>\<close> with the ids \<open>h + 1\<close>, \<open>h + 2\<close>, ... in order, the counter
  is one past the last id, and no text is the end of a line stored before its own.
\<close>

definition numbered :: "nat \<Rightarrow> globals \<Rightarrow> bool" where
  "numbered h g \<longleftrightarrow>
     (\<exists>ts. work_array g = map (\<lambda>(i, t). item_line i t) (enumerate (h + 1) ts) \<and>
           current_index g = h + 1 + length ts \<and>
           (\<forall>i < length ts. \<forall>j < i. \<not> suffix (ts ! i) (work_array g ! j)))"

text \<open>\<open>preserves I m\<close>: when \<open>m\<close> returns from a state with \<open>I\<close>, the new state has \<open>I\<close>.\<close>

definition preserves :: "(globals \<Rightarrow> bool) \<Rightarrow> 'a gen \<Rightarrow> bool" where
  "preserves I m \<longleftrightarrow> (\<forall>g r g'. I g \<longrightarrow> m g = Inr (r, g') \<longrightarrow> I g')"

text \<open>\<open>succeeds I m Q\<close>: from every state with \<open>I\<close> the computation \<open>m\<close> returns, in a
  state with \<open>I\<close>, a value with \<open>Q\<close>.\<close>

definition succeeds :: "(globals \<Rightarrow> bool) \<Rightarrow> 'a gen \<Rightarrow> ('a \<Rightarrow> bool) \<Rightarrow> bool" where
  "succeeds I m Q \<longleftrightarrow> (\<forall>g. I g \<longrightarrow> (\<exists>r g'. m g = Inr (r, g') \<and> I g' \<and> Q r))"

text \<open>
  The steps that both branches of \<^verbatim>\<open>advanced_face_0\<close> perform, as a function of the
  vertex order \<open>loop\<close> given to the edge loop and of the origin of the frame: the bounded
  loop, the frame with the normalised hint as its normal and the normalised difference of
  the first two vertices of \<open>loop\<close> as its reference direction, the plane and the face.
\<close>

definition face_from ::
  "'n arith \<Rightarrow> 'n list list \<Rightarrow> 'n list \<Rightarrow> 'n list \<Rightarrow> flag \<Rightarrow> flag \<Rightarrow> nat gen" where
  "face_from A loop origin zaxis same_sense_1 same_sense_2 =
     bind_gen (edge_loop_1 A loop same_sense_1) (\<lambda>fob.
     bind_gen (lift_gen (normalize_py A zaxis)) (\<lambda>d1.
     bind_gen (lift_gen (bind_err (getitem loop 1) (\<lambda>v1.
                         bind_err (getitem loop 0) (\<lambda>v0.
                         bind_err (vsub A v1 v0) (normalize_py A))))) (\<lambda>d2.
     bind_gen (axis2_placement_3d A origin d1 d2) (\<lambda>a.
     bind_gen (plane a) (\<lambda>p.
     advanced_face fob p same_sense_2)))))"

text \<open>The magnitude of a vector in exact arithmetic.\<close>

definition norm_exact :: "real list \<Rightarrow> real" where
  "norm_exact v = sqrt (sum_list (map (\<lambda>i. i ^ 2) v))"

text \<open>\<open>ring_ok vs\<close>: a closed ring of vertices with three coordinates each, in which no
  vertex equals its cyclic successor, so that every edge has a direction.\<close>

definition ring_ok :: "real list list \<Rightarrow> bool" where
  "ring_ok vs \<longleftrightarrow>
     vs \<noteq> [] \<and> (\<forall>v \<in> set vs. length v = 3) \<and>
     (\<forall>(a, b) \<in> set (zip vs (rotate_py vs (- 1))). a \<noteq> b)"

text \<open>
  The orientation of three points of the plane: positive for a left turn at \<open>b\<close>,
  negative for a right turn, zero when they are on a line.
\<close>

definition turn :: "real list \<Rightarrow> real list \<Rightarrow> real list \<Rightarrow> real" where
  "turn a b c = (b ! 0 - a ! 0) * (c ! 1 - a ! 1) - (b ! 1 - a ! 1) * (c ! 0 - a ! 0)"

text \<open>
  What the extrusion needs of a polygon in exact arithmetic: at least three vertices of
  three coordinates, no vertex above or below its cyclic successor, and the first three
  not on a line.
\<close>

definition footprint_ok :: "real list list \<Rightarrow> bool" where
  "footprint_ok vs \<longleftrightarrow>
     3 \<le> length vs \<and> (\<forall>v \<in> set vs. length v = 3) \<and>
     (\<forall>(a, b) \<in> set (zip vs (rotate_py vs (- 1))). a ! 0 \<noteq> b ! 0 \<or> a ! 1 \<noteq> b ! 1) \<and>
     turn (vs ! 0) (vs ! 1) (vs ! 2) \<noteq> 0"

section \<open>Properties of the winding normalisation\<close>

subsection \<open>Evaluation of expressions\<close>

lemma bind_err_Inr [simp]: "bind_err (Inr a) f = f a"
  by (simp add: bind_err_def)

lemma bind_err_Inl [simp]: "bind_err (Inl e) f = Inl e"
  by (simp add: bind_err_def)

lemma bind_err_eq_Inr: "bind_err m f = Inr b \<longleftrightarrow> (\<exists>a. m = Inr a \<and> f a = Inr b)"
  by (cases m) simp_all

lemma binop_Inr [simp]: "binop f (Inr x) (Inr y) = f x y"
  by (simp add: binop_def)

lemma unop_Inr [simp]: "unop f (Inr x) = Inr (f x)"
  by (simp add: unop_def)


lemma getitem_eq_Inr: "getitem xs i = Inr x \<longleftrightarrow> i < length xs \<and> x = xs ! i"
  by (auto simp: getitem_def)


lemma map_err_length: "map_err f xs = Inr ys \<Longrightarrow> length ys = length xs"
  by (induction xs arbitrary: ys) (auto split: sum.splits)

lemma map_err_nth: "map_err f xs = Inr ys \<Longrightarrow> i < length xs \<Longrightarrow> f (xs ! i) = Inr (ys ! i)"
proof (induction xs arbitrary: ys i)
  case Nil
  then show ?case by simp
next
  case (Cons x xs)
  then show ?case by (cases i) (auto split: sum.splits)
qed

subsection \<open>The rotation\<close>



lemma length_rotate_py: "length (rotate_py xs k) = length xs"
  by (auto simp: rotate_py_def slice_index_def)



subsection \<open>The sum on Python's integers\<close>










declare convert_to_clockwise.simps(2) [simp del]












section \<open>Properties of the registry\<close>

subsection \<open>Numerals and line ids\<close>

lemma endswith_suffix: "endswith item s \<longleftrightarrow> suffix s item"
proof
  assume "endswith item s"
  then have "item = take (length item - length s) item @ s"
    by (metis append_take_drop_id endswith_def)
  then show "suffix s item" by (metis suffixI)
next
  assume "suffix s item"
  then obtain zs where "item = zs @ s" by (auto simp: suffix_def)
  then show "endswith item s" by (simp add: endswith_def)
qed

lemma digit_val_digit_char: "d < 10 \<Longrightarrow> digit_val (digit_char d) = d"
  by (simp add: digit_val_def digit_char_def)

lemma is_digit_digit_char: "d < 10 \<Longrightarrow> is_digit (digit_char d)"
  by (simp add: is_digit_def digit_char_def)

lemma is_digit_not_eq: "is_digit c \<Longrightarrow> c \<noteq> CHR ''=''"
  by (auto simp: is_digit_def)

lemma is_digit_not_nl: "is_digit c \<Longrightarrow> c \<noteq> CHR 0x0A"
  by (auto simp: is_digit_def)

lemma str_nat_digits: "list_all is_digit (str_nat n)"
proof (induction n rule: str_nat.induct)
  case (1 n)
  show ?case
  proof (cases "n < 10")
    case True
    then show ?thesis by (subst str_nat.simps) (simp add: is_digit_digit_char)
  next
    case False
    then show ?thesis
      using 1 by (subst str_nat.simps) (simp add: is_digit_digit_char)
  qed
qed

lemma str_nat_nonempty: "str_nat n \<noteq> []"
  by (subst str_nat.simps) simp

lemma dec_val_str_nat: "foldl (\<lambda>acc c. 10 * acc + digit_val c) 0 (str_nat n) = n"
proof (induction n rule: str_nat.induct)
  case (1 n)
  show ?case
  proof (cases "n < 10")
    case True
    then show ?thesis
      by (subst str_nat.simps) (simp add: digit_val_digit_char)
  next
    case False
    then have "foldl (\<lambda>acc c. 10 * acc + digit_val c) 0 (str_nat n) =
        10 * foldl (\<lambda>acc c. 10 * acc + digit_val c) 0 (str_nat (n div 10)) +
        digit_val (digit_char (n mod 10))"
      by (subst str_nat.simps) simp
    then show ?thesis using 1 False by (simp add: digit_val_digit_char)
  qed
qed

lemma py_int_str_nat: "py_int (str_nat n) = Inr n"
  by (simp add: py_int_def str_nat_nonempty str_nat_digits dec_val_str_nat)

lemma lazy_group_digits:
  "list_all is_digit ds \<Longrightarrow> lazy_group acc (ds @ CHR ''='' # t) = Some (acc @ ds)"
  by (induction ds arbitrary: acc) (auto simp: is_digit_not_eq is_digit_not_nl)

lemma re_search_item_line: "re_search (item_line i t) = Some (str_nat i)"
proof -
  obtain d ds where ds: "str_nat i = d # ds"
    using str_nat_nonempty [of i] by (cases "str_nat i") auto
  have all: "is_digit d" "list_all is_digit ds"
    using str_nat_digits [of i] ds by simp_all
  have "group_at (str_nat i @ CHR ''='' # t) = Some (str_nat i)"
    using all lazy_group_digits [of ds "[d]" t] by (simp add: ds is_digit_not_nl)
  then show ?thesis by (simp add: item_line_def)
qed

lemma line_index_item_line: "line_index (item_line i t) = Inr i"
  by (simp add: line_index_def re_search_item_line py_int_str_nat)

lemma digit_char_eval:
  "digit_char 0 = CHR ''0''" "digit_char 1 = CHR ''1''" "digit_char (Suc 0) = CHR ''1''"
  "digit_char 2 = CHR ''2''" "digit_char 3 = CHR ''3''" "digit_char 4 = CHR ''4''"
  "digit_char 5 = CHR ''5''" "digit_char 6 = CHR ''6''" "digit_char 7 = CHR ''7''"
  "digit_char 8 = CHR ''8''" "digit_char 9 = CHR ''9''"
  by (simp_all add: digit_char_def char_of_def bit_0)

lemma str_nat_numeral:
  "str_nat (numeral k) =
     (if (numeral k :: nat) < 10 then [digit_char (numeral k)]
      else str_nat (numeral k div 10) @ [digit_char (numeral k mod 10)])"
  by (rule str_nat.simps)

lemma str_nat_small: "str_nat 0 = ''0''" "str_nat 1 = ''1''" "str_nat (Suc 0) = ''1''"
  by (simp_all add: str_nat.simps [of 0] str_nat.simps [of 1] str_nat.simps [of "Suc 0"] digit_char_eval)

lemmas str_nat_eval = str_nat_numeral str_nat_small digit_char_eval

subsection \<open>The intern operation\<close>

lemma item_exists_q_iff:
  "item_exists_q g s \<longleftrightarrow> (\<exists>item \<in> set (work_array g). suffix s item)"
  by (auto simp: item_exists_q_def filter_empty_conv endswith_suffix)

lemma hd_filter_find: "find P xs = Some l \<Longrightarrow> hd (filter P xs) = l"
  by (induction xs) (auto split: if_splits)

lemma find_Some_mem: "find P xs = Some l \<Longrightarrow> l \<in> set xs \<and> P l"
  by (induction xs) (auto split: if_splits)

lemma new_item_find:
  "new_item string_in g =
     (case find (\<lambda>item. suffix string_in item) (work_array g) of
        None \<Rightarrow> Inr (current_index g,
                 g\<lparr>work_array := work_array g @ [item_line (current_index g) string_in],
                   current_index := current_index g + 1\<rparr>)
      | Some l \<Rightarrow> (case line_index l of Inl e \<Rightarrow> Inl e | Inr i \<Rightarrow> Inr (i, g)))"
proof (cases "find (\<lambda>item. suffix string_in item) (work_array g)")
  case None
  then have "\<not> item_exists_q g string_in"
    by (simp add: item_exists_q_iff find_None_iff)
  then show ?thesis using None by (simp add: new_item_def)
next
  case (Some l)
  then have ex: "item_exists_q g string_in"
    using find_Some_mem [OF Some] by (auto simp: item_exists_q_iff)
  then have ne: "work_array g \<noteq> []"
    by (auto simp: item_exists_q_def)
  have "hd (filter (\<lambda>item. endswith item string_in) (work_array g)) = l"
    using hd_filter_find [OF Some] by (simp add: endswith_suffix)
  then show ?thesis
    using Some ex ne by (simp add: new_item_def existing_item_ln_def split: sum.splits)
qed

lemma existing_item_ln_guarded:
  "item_exists_q g s \<Longrightarrow> existing_item_ln g s \<noteq> Inr None"
  by (auto simp: existing_item_ln_def item_exists_q_def split: sum.splits)

text \<open>
  C10: the intern operation takes a stored record for a duplicate of the queried text
  whenever the record's whole line \<^verbatim>\<open>#<id>=<text>\<close> ends with the queried text, whether
  or not the payloads are equal, and answers with the id read from the earliest such line
  of the store; the globals are left as they were. Only when no line ends with the text is
  a record appended under the next id.
\<close>

theorem new_item_suffix_match:
  "new_item string_in g =
     (case find (\<lambda>item. suffix string_in item) (work_array g) of
        None \<Rightarrow> Inr (current_index g,
                 g\<lparr>work_array := work_array g @ [item_line (current_index g) string_in],
                   current_index := current_index g + 1\<rparr>)
      | Some l \<Rightarrow> (case line_index l of Inl e \<Rightarrow> Inl e | Inr i \<Rightarrow> Inr (i, g)))"
  by (rule new_item_find)

text \<open>The text \<^verbatim>\<open>B\<close> has a record of its own, \<^verbatim>\<open>#51\<close>, but the earlier line
  \<^verbatim>\<open>#50=AB\<close> ends with it too, and its id is the one returned.\<close>

theorem new_item_suffix_match_witness:
  "new_item ''B''
     \<lparr>work_array = [''#50=AB'', ''#51=B''], current_index = 52, part_body_index = 1\<rparr> =
   Inr (50, \<lparr>work_array = [''#50=AB'', ''#51=B''], current_index = 52, part_body_index = 1\<rparr>)"
proof -
  have l: "line_index ''#50=AB'' = Inr 50"
    using line_index_item_line [of 50 "''AB''"] by (simp add: item_line_def str_nat_eval)
  show ?thesis
    by (subst new_item_suffix_match) (simp add: l suffix_to_prefix)
qed


section \<open>Properties of the vector arithmetic\<close>








section \<open>Deduplication of vertex records\<close>

lemma extends_refl: "extends g g"
  by (simp add: extends_def)

lemma extends_trans: "extends g g' \<Longrightarrow> extends g' g'' \<Longrightarrow> extends g g''"
  by (auto simp: extends_def)

lemma find_append_Some: "find P xs = Some l \<Longrightarrow> find P (xs @ ys) = Some l"
  by (induction xs) (auto split: if_splits)

lemma find_snoc_None: "find P xs = None \<Longrightarrow> P x \<Longrightarrow> find P (xs @ [x]) = Some x"
  by (induction xs) (auto split: if_splits)

lemma suffix_item_line: "suffix t (item_line i t)"
  by (simp add: item_line_def suffix_def)

lemma new_item_post:
  assumes "new_item t g = Inr (i, g1)"
  shows "\<exists>l. find (\<lambda>item. suffix t item) (work_array g1) = Some l \<and> line_index l = Inr i"
    and "extends g g1"
proof -
  show "\<exists>l. find (\<lambda>item. suffix t item) (work_array g1) = Some l \<and> line_index l = Inr i"
  proof (cases "find (\<lambda>item. suffix t item) (work_array g)")
    case None
    then have "g1 = g\<lparr>work_array := work_array g @ [item_line (current_index g) t],
        current_index := current_index g + 1\<rparr>" and "i = current_index g"
      using assms by (auto simp: new_item_find)
    then show ?thesis
      using find_snoc_None [OF None suffix_item_line [of t "current_index g"]]
      by (simp add: line_index_item_line)
  next
    case (Some l)
    then show ?thesis
      using assms by (auto simp: new_item_find split: sum.splits)
  qed
  show "extends g g1"
    using assms by (auto simp: new_item_find extends_def split: option.splits sum.splits)
qed

lemma new_item_stable:
  assumes "new_item t g = Inr (i, g1)" and "extends g1 g2"
  shows "new_item t g2 = Inr (i, g2)"
proof -
  obtain l where l: "find (\<lambda>item. suffix t item) (work_array g1) = Some l" "line_index l = Inr i"
    using new_item_post(1) [OF assms(1)] by blast
  obtain extra where "work_array g2 = work_array g1 @ extra"
    using assms(2) by (auto simp: extends_def)
  then have "find (\<lambda>item. suffix t item) (work_array g2) = Some l"
    using find_append_Some [OF l(1)] by simp
  then show ?thesis by (simp add: new_item_find l(2))
qed

lemma bind_gen_Inr:
  "bind_gen m f g = Inr (r, g') \<longleftrightarrow> (\<exists>a g1. m g = Inr (a, g1) \<and> f a g1 = Inr (r, g'))"
  by (auto simp: bind_gen_def split: sum.splits)

lemma lift_gen_Inr: "lift_gen x g = Inr (r, g') \<longleftrightarrow> x = Inr r \<and> g' = g"
  by (auto simp: lift_gen_def split: sum.splits)

lemma return_gen_Inr: "return_gen a g = Inr (r, g') \<longleftrightarrow> r = a \<and> g' = g"
  by (auto simp: return_gen_def)

text \<open>
  C3, amended: vertex records are deduplicated like every other record, by their text.
  Once a vertex has been made, a later call with coordinates that print as the same
  text (\<^verbatim>\<open>str\<close> of each coordinate, joined by commas), whatever has been appended to the
  registry in between, returns the same vertex id and creates nothing: both its
  \<^verbatim>\<open>CARTESIAN_POINT\<close> text and its \<^verbatim>\<open>VERTEX_POINT\<close> text are found. Equal coordinates
  print as the same text when they are the same numbers of the same type and sign; the
  floats \<^verbatim>\<open>0.0\<close> and \<^verbatim>\<open>-0.0\<close> are equal and print differently, and the theorem says
  nothing of such a pair.
\<close>

theorem vertex_deduplicated:
  assumes "vertex A coord_in g = Inr (i, g1)" and "extends g1 g2"
    and "to_coord A coord_again = to_coord A coord_in"
  shows "vertex A coord_again g2 = Inr (i, g2)"
proof -
  obtain c p ga where c: "to_coord A coord_in = Inr c"
    and p: "new_item (''CARTESIAN_POINT('Vertex',('' @ c @ '')) ;\<newline>'') g = Inr (p, ga)"
    and v: "new_item (''VERTEX_POINT('' @ [CHR 0x27, CHR 0x27] @ '',#'' @ str_nat p @ '') ;\<newline>'') ga
              = Inr (i, g1)"
    using assms(1) unfolding vertex_def bind_gen_Inr lift_gen_Inr by blast
  have "extends ga g2"
    using new_item_post(2) [OF v] assms(2) by (rule extends_trans)
  then have p2: "new_item (''CARTESIAN_POINT('Vertex',('' @ c @ '')) ;\<newline>'') g2 = Inr (p, g2)"
    using new_item_stable [OF p] by simp
  have v2: "new_item (''VERTEX_POINT('' @ [CHR 0x27, CHR 0x27] @ '',#'' @ str_nat p @ '') ;\<newline>'') g2
              = Inr (i, g2)"
    using new_item_stable [OF v assms(2)] .
  show ?thesis
    unfolding vertex_def bind_gen_Inr lift_gen_Inr assms(3) using c p2 v2 by blast
qed

lemma vertex_first:
  "vertex exact [0, 0, 0] g50 =
     Inr (51, \<lparr>work_array = [''#50=CARTESIAN_POINT('Vertex',(0.0,0.0,0.0)) ;\<newline>'',
                               ''#51=VERTEX_POINT('' @ [CHR 0x27, CHR 0x27] @ '',#50) ;\<newline>''],
               current_index = 52, part_body_index = 1\<rparr>)"
  by (simp add: vertex_def bind_gen_def lift_gen_def to_coord_def exact_def str_whole_def
      new_item_find g50_def item_line_def str_nat_eval suffix_to_prefix)

theorem vertex_deduplicated_witness:
  "vertex exact [0, 0, 0] g50 =
     Inr (51, \<lparr>work_array = [''#50=CARTESIAN_POINT('Vertex',(0.0,0.0,0.0)) ;\<newline>'',
                               ''#51=VERTEX_POINT('' @ [CHR 0x27, CHR 0x27] @ '',#50) ;\<newline>''],
               current_index = 52, part_body_index = 1\<rparr>) \<and>
   to_coord exact [0, 0, 0] = to_coord exact [0, 0, 0] \<and>
   vertex exact [0, 0, 0]
     \<lparr>work_array = [''#50=CARTESIAN_POINT('Vertex',(0.0,0.0,0.0)) ;\<newline>'',
                     ''#51=VERTEX_POINT('' @ [CHR 0x27, CHR 0x27] @ '',#50) ;\<newline>''],
      current_index = 52, part_body_index = 1\<rparr> =
     Inr (51, \<lparr>work_array = [''#50=CARTESIAN_POINT('Vertex',(0.0,0.0,0.0)) ;\<newline>'',
                               ''#51=VERTEX_POINT('' @ [CHR 0x27, CHR 0x27] @ '',#50) ;\<newline>''],
               current_index = 52, part_body_index = 1\<rparr>)"
  using vertex_first vertex_deduplicated [OF vertex_first extends_refl refl] by simp

text \<open>
  C3, as the claim states it, fails: the second vertex at the coordinates (0.0, 0.0, 0.0)
  does not get a record id of its own. It is given the id 51 of the first, and the
  registry still holds the two records of the first call.
\<close>

theorem vertex_own_id_counterexample:
  "vertex exact [0, 0, 0] g50 =
     Inr (51, \<lparr>work_array = [''#50=CARTESIAN_POINT('Vertex',(0.0,0.0,0.0)) ;\<newline>'',
                               ''#51=VERTEX_POINT('' @ [CHR 0x27, CHR 0x27] @ '',#50) ;\<newline>''],
               current_index = 52, part_body_index = 1\<rparr>) \<and>
   vertex exact [0, 0, 0]
     \<lparr>work_array = [''#50=CARTESIAN_POINT('Vertex',(0.0,0.0,0.0)) ;\<newline>'',
                     ''#51=VERTEX_POINT('' @ [CHR 0x27, CHR 0x27] @ '',#50) ;\<newline>''],
      current_index = 52, part_body_index = 1\<rparr> =
     Inr (51, \<lparr>work_array = [''#50=CARTESIAN_POINT('Vertex',(0.0,0.0,0.0)) ;\<newline>'',
                               ''#51=VERTEX_POINT('' @ [CHR 0x27, CHR 0x27] @ '',#50) ;\<newline>''],
               current_index = 52, part_body_index = 1\<rparr>)"
  by (simp add: vertex_def bind_gen_def lift_gen_def to_coord_def exact_def str_whole_def
      new_item_find g50_def item_line_def str_nat_eval suffix_to_prefix line_index_def py_int_def
      is_digit_def digit_val_def)


section \<open>The invariant of the registry\<close>

lemma numbered_initial:
  "numbered h \<lparr>work_array = [], current_index = h + 1, part_body_index = n\<rparr>"
  by (simp add: numbered_def)

lemma numbered_part_body_index:
  "numbered h g \<Longrightarrow> numbered h (g\<lparr>part_body_index := n\<rparr>)"
  by (simp add: numbered_def)

lemma numbered_new_item:
  assumes "numbered h g" and "new_item t g = Inr (i, g')"
  shows "numbered h g'"
proof (cases "find (\<lambda>item. suffix t item) (work_array g)")
  case (Some l)
  then have "g' = g" using assms(2) by (auto simp: new_item_find split: sum.splits)
  then show ?thesis using assms(1) by simp
next
  case None
  then have g': "g' = g\<lparr>work_array := work_array g @ [item_line (current_index g) t],
      current_index := current_index g + 1\<rparr>"
    using assms(2) by (auto simp: new_item_find)
  obtain ts where ts: "work_array g = map (\<lambda>(i, t). item_line i t) (enumerate (h + 1) ts)"
      "current_index g = h + 1 + length ts"
      "\<forall>i < length ts. \<forall>j < i. \<not> suffix (ts ! i) (work_array g ! j)"
    using assms(1) by (auto simp: numbered_def)
  have len: "length (work_array g) = length ts"
    by (subst ts(1)) simp
  have nomatch: "\<forall>j < length ts. \<not> suffix t (work_array g ! j)"
    using None len by (auto simp: find_None_iff)
  have wa: "work_array g' = map (\<lambda>(i, t). item_line i t) (enumerate (h + 1) (ts @ [t]))"
    by (simp add: g' ts(1,2) enumerate_append_eq)
  have fresh: "\<forall>i < length (ts @ [t]). \<forall>j < i. \<not> suffix ((ts @ [t]) ! i) (work_array g' ! j)"
  proof (intro allI impI)
    fix i j assume i: "i < length (ts @ [t])" and j: "j < i"
    show "\<not> suffix ((ts @ [t]) ! i) (work_array g' ! j)"
    proof (cases "i < length ts")
      case True
      then show ?thesis using ts(3) j len by (simp add: g' nth_append)
    next
      case False
      then have "i = length ts" using i by simp
      then show ?thesis using nomatch j len by (simp add: g' nth_append)
    qed
  qed
  show ?thesis
    unfolding numbered_def
    by (rule exI [of _ "ts @ [t]"]) (use wa fresh in \<open>simp add: g' ts(2)\<close>)
qed

lemma numbered_ids:
  assumes "numbered h g"
  shows "map line_index (work_array g) = map Inr [h + 1 ..< current_index g]"
proof -
  obtain ts where ts: "work_array g = map (\<lambda>(i, t). item_line i t) (enumerate (h + 1) ts)"
      "current_index g = h + 1 + length ts"
    using assms by (auto simp: numbered_def)
  show ?thesis
    by (subst ts(1), subst ts(2))
      (auto intro!: nth_equalityI simp: line_index_item_line nth_enumerate_eq simp del: upt_Suc)
qed

lemma item_line_inject: "item_line i t = item_line k u \<Longrightarrow> i = k \<and> t = u"
proof -
  assume eq: "item_line i t = item_line k u"
  then have "line_index (item_line i t) = line_index (item_line k u)" by simp
  then have ik: "i = k" by (simp add: line_index_item_line)
  with eq show ?thesis by (simp add: item_line_def)
qed

lemma numbered_reuse:
  assumes "numbered h g" and "item_line k t \<in> set (work_array g)"
  shows "new_item t g = Inr (k, g)"
proof -
  obtain ts where ts: "work_array g = map (\<lambda>(i, t). item_line i t) (enumerate (h + 1) ts)"
      "\<forall>i < length ts. \<forall>j < i. \<not> suffix (ts ! i) (work_array g ! j)"
    using assms(1) by (auto simp: numbered_def)
  have len: "length (work_array g) = length ts"
    by (subst ts(1)) simp
  obtain i where i: "i < length ts" "work_array g ! i = item_line k t"
    using assms(2) len by (auto simp: in_set_conv_nth)
  have "work_array g ! i = item_line (h + 1 + i) (ts ! i)"
    using i(1) by (subst ts(1)) (simp add: nth_enumerate_eq)
  then have kt: "k = h + 1 + i" "t = ts ! i"
    using i(2) item_line_inject [of k t "h + 1 + i" "ts ! i"] by simp_all
  have "find (\<lambda>item. suffix t item) (work_array g) = Some (work_array g ! i)"
    unfolding find_Some_iff
    using i ts(2) len kt suffix_item_line [of t k] by (intro exI [of _ i]) auto
  then show ?thesis
    by (simp add: new_item_find i(2) line_index_item_line)
qed

subsection \<open>Computations that keep an invariant\<close>

lemma preserves_new_item: "preserves (numbered h) (new_item t)"
  unfolding preserves_def using numbered_new_item by blast

lemma preserves_return: "preserves I (return_gen a)"
  by (simp add: preserves_def return_gen_def)

lemma preserves_lift: "preserves I (lift_gen x)"
  by (auto simp: preserves_def lift_gen_def split: sum.splits)

lemma preserves_bind:
  "preserves I m \<Longrightarrow> (\<And>a. preserves I (f a)) \<Longrightarrow> preserves I (bind_gen m f)"
  unfolding preserves_def bind_gen_Inr by blast

lemma preserves_if:
  "preserves I m \<Longrightarrow> preserves I n \<Longrightarrow> preserves I (if b then m else n)"
  by simp

lemma preserves_map_gen:
  "(\<And>x. preserves I (f x)) \<Longrightarrow> preserves I (map_gen f xs)"
  by (induction xs) (auto intro!: preserves_bind preserves_return)

lemma preserves_case_prod:
  "(\<And>a b. preserves I (f a b)) \<Longrightarrow> preserves I (case p of (a, b) \<Rightarrow> f a b)"
  by (cases p) simp

lemmas preserves_intros =
  preserves_bind preserves_new_item preserves_return preserves_lift preserves_if
  preserves_map_gen preserves_case_prod

lemma preserves_line: "preserves (numbered h) (line A origin direction)"
  unfolding line_def by (intro preserves_intros)

lemma preserves_vertex: "preserves (numbered h) (vertex A coord_in)"
  unfolding vertex_def by (intro preserves_intros)

lemma preserves_edge_curve_0: "preserves (numbered h) (edge_curve_0 A v1 v2 s)"
  unfolding edge_curve_0_def edge_curve_def
  by (intro preserves_intros preserves_line preserves_vertex)

lemma preserves_edge_loop_1: "preserves (numbered h) (edge_loop_1 A vertices s)"
  unfolding edge_loop_1_def edge_loop_0_def edge_loop_def oriented_edge_def face_outer_bound_def
  by (intro preserves_intros preserves_edge_curve_0)

lemma preserves_axis2_placement_3d:
  "preserves (numbered h) (axis2_placement_3d A origin_coord direction1 direction2)"
  unfolding axis2_placement_3d_def by (intro preserves_intros)

lemma preserves_advanced_face_0:
  "preserves (numbered h) (advanced_face_0 A vertices zaxis s1 s2)"
  unfolding advanced_face_0_def plane_def advanced_face_def
  by (intro preserves_intros preserves_edge_loop_1 preserves_axis2_placement_3d)

lemma preserves_zface: "preserves (numbered h) (zface A vertex1 vertex2 geom_depth_list)"
  unfolding zface_def by (intro preserves_intros preserves_advanced_face_0)

lemma preserves_af2d3d: "preserves (numbered h) (af2d3d A vertex_list geom_depth_list)"
  unfolding af2d3d_def xyface_def
  by (intro preserves_intros preserves_advanced_face_0 preserves_zface)

lemma preserves_manifold_solid_brep: "preserves (numbered h) (manifold_solid_brep closed_shell_ln)"
  unfolding preserves_def manifold_solid_brep_def
  by (auto split: sum.splits dest: numbered_new_item intro: numbered_part_body_index)

lemma preserves_generate_part: "preserves (numbered h) (generate_part A vert_list geom_depth)"
  unfolding generate_part_def af_list_2_part_def closed_shell_def
  by (intro preserves_intros preserves_af2d3d preserves_manifold_solid_brep)

lemma preserves_build_parts:
  "preserves (numbered h) (build_parts A list_vert_list geom_depth_list)"
  unfolding build_parts_def part_2_assembly_def advanced_brep_shape_representation_def
    shape_representation_relationship_def
  by (intro preserves_intros preserves_generate_part)


subsection \<open>The scaffold\<close>

lemma first_error_None: "first_error chk xs = None \<longleftrightarrow> (\<forall>x \<in> set xs. chk x = None)"
  by (induction xs) (auto split: option.splits)

lemma sorted_le_last: "sorted xs \<Longrightarrow> x \<in> set xs \<Longrightarrow> x \<le> last (xs :: nat list)"
  by (induction xs) auto

lemma last_sort_key_max:
  assumes "xs \<noteq> []" and "x \<in> set xs"
  shows "(f x :: nat) \<le> f (last (sort_key f xs))"
proof -
  have ne: "sort_key f xs \<noteq> []"
    using assms(1) by (metis length_sort list.size(3) length_0_conv)
  have "f x \<in> set (map f (sort_key f xs))"
    using assms(2) by simp
  then have "f x \<le> last (map f (sort_key f xs))"
    using sorted_le_last [OF sorted_sort_key [of f xs]] by blast
  then show ?thesis using ne by (simp add: last_map)
qed

lemma highest_index_max:
  assumes "highest_index ls = Inr h"
  shows "\<forall>l \<in> set ls. \<exists>k \<le> h. line_index l = Inr k"
proof
  fix l assume l: "l \<in> set ls"
  have ok: "\<forall>x \<in> set ls. \<exists>k. line_index x = Inr k"
    using assms
    by (auto simp: highest_index_def first_error_None split: option.splits sum.splits if_splits)
      (metis old.sum.exhaust option.distinct(1) old.sum.simps(5))
  have ne: "ls \<noteq> []" using l by auto
  let ?key = "\<lambda>l. case line_index l of Inr k \<Rightarrow> k | Inl _ \<Rightarrow> 0"
  have h: "line_index (last (sort_key ?key ls)) = Inr h"
    using assms ne by (auto simp: highest_index_def split: option.splits)
  have "?key l \<le> ?key (last (sort_key ?key ls))"
    using last_sort_key_max [OF ne l] .
  moreover obtain k where k: "line_index l = Inr k" using ok l by blast
  ultimately have "k \<le> h" by (simp add: h)
  then show "\<exists>k \<le> h. line_index l = Inr k" using k by blast
qed

lemma highest_index_sorted:
  assumes "map line_index ls = map Inr ks" and "sorted ks" and "ks \<noteq> []"
  shows "highest_index ls = Inr (last ks)"
proof -
  let ?key = "\<lambda>l. case line_index l of Inr k \<Rightarrow> k | Inl _ \<Rightarrow> 0"
  have len: "length ls = length ks"
    using assms(1) by (metis length_map)
  have nth: "\<And>i. i < length ls \<Longrightarrow> line_index (ls ! i) = Inr (ks ! i)"
    using assms(1) len by (metis nth_map)
  have all: "\<forall>x \<in> set ls. \<exists>k. line_index x = Inr k"
    using nth by (auto simp: in_set_conv_nth)
  then have fe: "first_error (\<lambda>l. case line_index l of Inl e \<Rightarrow> Some e | Inr _ \<Rightarrow> None) ls = None"
    by (auto simp: first_error_None)
  have keys: "map ?key ls = ks"
    using nth len by (auto intro!: nth_equalityI)
  then have "sort_key ?key ls = ls"
    using assms(2) by (simp add: sort_key_id_if_sorted)
  moreover have ne: "ls \<noteq> []" using assms(3) len by auto
  moreover have "line_index (last ls) = Inr (last ks)"
    using ne assms(1,3) by (metis last_map)
  ultimately show ?thesis
    by (simp add: highest_index_def fe)
qed

lemma file_array_ids:
  "map line_index (filter startswith_hash (file_array nm y mo d hh mi s)) =
   map Inr [1, 2, 3, 4, 5, 6, 7, 8, 9, 10, 11, 12, 13, 14, 15, 16, 17, 18, 19, 20, 21, 22, 23, 24, 25, 26, 27, 28, 29, 30, 31, 32, 33, 34, 35, 36, 37, 38, 39, 40, 41, 42, 43, 44, 45, 46, 47, 48, 49]"
  by (simp add: file_array_def startswith_hash_def line_index_def py_int_def is_digit_def
      digit_val_def)

lemma initial_globals_file_array:
  "initial_globals (file_array nm y mo d hh mi s) = Inr g50"
proof -
  have "highest_index (filter startswith_hash (file_array nm y mo d hh mi s)) = Inr 49"
    using highest_index_sorted [OF file_array_ids] by simp
  then show ?thesis by (simp add: initial_globals_def g50_def)
qed



end
